theory Spec2Isabelle
  imports Complex_Main
begin

section \<open>The cache table, its reads and its sweep (utils/cache.js)\<close>

text \<open>
  The cache lives in the table \<^verbatim>\<open>cache\<close> of the datastore: \<^verbatim>\<open>key text PRIMARY KEY\<close>,
  \<^verbatim>\<open>value jsonb\<close>, \<^verbatim>\<open>expires_at timestamptz\<close>, \<^verbatim>\<open>created_at timestamptz DEFAULT now()\<close>.
  The primary key makes the table a finite map from keys to rows. Timestamps are
  integers, the milliseconds of a JavaScript \<^verbatim>\<open>Date\<close>. The payload type is left open.

  Every call of the client library answers with a pair of data and error. The code
  looks at one error code only, \<^verbatim>\<open>PGRST116\<close>, the answer of \<^verbatim>\<open>.single()\<close> when no row
  matches; every other failure is \<open>PgOther\<close>. A store that is \<open>unavailable\<close> answers
  every query on the table with \<open>PgOther\<close> and changes nothing.
\<close>

datatype pg_error = PGRST116 | PgOther

record 'v cache_row =
  cvalue :: 'v
  expires_at :: int
  created_at :: int

record 'v cache_store =
  entries :: "string \<rightharpoonup> 'v cache_row"
  unavailable :: bool

text \<open>\<^verbatim>\<open>supabase.from('cache').select('value, expires_at').eq('key', key).single()\<close>\<close>

definition select_single :: "'v cache_store \<Rightarrow> string \<Rightarrow> pg_error + 'v cache_row" where
  "select_single st key =
     (if unavailable st then Inl PgOther
      else case entries st key of None \<Rightarrow> Inl PGRST116 | Some row \<Rightarrow> Inr row)"

text \<open>\<^verbatim>\<open>supabase.from('cache').delete().eq('key', key)\<close>; its answer is not looked at.\<close>

definition delete_eq_key :: "string \<Rightarrow> 'v cache_store \<Rightarrow> 'v cache_store" where
  "delete_eq_key key st =
     (if unavailable st then st else st\<lparr>entries := (entries st)(key := None)\<rparr>)"

text \<open>\<^verbatim>\<open>supabase.from('cache').delete().lt('expires_at', t)\<close>\<close>

definition delete_lt_expires_at :: "int \<Rightarrow> 'v cache_store \<Rightarrow> 'v cache_store" where
  "delete_lt_expires_at t st =
     (if unavailable st then st
      else st\<lparr>entries := (\<lambda>k. case entries st k of
                                None \<Rightarrow> None
                              | Some row \<Rightarrow> if expires_at row < t then None else Some row)\<rparr>)"

text \<open>
  \<^verbatim>\<open>getCachedData(key)\<close>. \<open>now\<close> is the clock read by \<^verbatim>\<open>new Date()\<close> in the expiry
  test. JavaScript's \<^verbatim>\<open>null\<close> result is \<open>None\<close>. Both error branches return \<^verbatim>\<open>null\<close>
  (the second one after logging), and so does the \<^verbatim>\<open>catch\<close> block.
\<close>

definition getCachedData :: "int \<Rightarrow> string \<Rightarrow> 'v cache_store \<Rightarrow> 'v option \<times> 'v cache_store" where
  "getCachedData now key st =
     (case select_single st key of
        Inl err \<Rightarrow> (if err = PGRST116 then (None, st) else (None, st))
      | Inr data \<Rightarrow>
          if expires_at data < now then (None, delete_eq_key key st)
          else (Some (cvalue data), st))"

text \<open>\<^verbatim>\<open>cleanExpiredCache()\<close>, run every hour by \<^verbatim>\<open>setInterval\<close>.\<close>

definition cleanExpiredCache :: "int \<Rightarrow> 'v cache_store \<Rightarrow> 'v cache_store" where
  "cleanExpiredCache now st = delete_lt_expires_at now st"

section \<open>JavaScript values\<close>

text \<open>
  Numbers are idealised: a finite double is a real (no rounding, one zero), and the
  three non-finite doubles are kept apart. A value is what a parsed query string, a
  JSON body or an object literal can hold; an object is the list of its properties
  in insertion order, each key once.
\<close>

datatype jsnum = Num real | NaN | PosInf | NegInf

datatype jsval =
    Undefined
  | Null
  | Bool bool
  | Number jsnum
  | Str string
  | Arr "jsval list"
  | Obj "(string \<times> jsval) list"

text \<open>The test made by \<^verbatim>\<open>if (v)\<close>, \<^verbatim>\<open>!v\<close> and \<^verbatim>\<open>a && b\<close>.\<close>

fun truthy :: "jsval \<Rightarrow> bool" where
  "truthy Undefined = False"
| "truthy Null = False"
| "truthy (Bool b) = b"
| "truthy (Number n) = (n \<noteq> NaN \<and> n \<noteq> Num 0)"
| "truthy (Str s) = (s \<noteq> [])"
| "truthy (Arr xs) = True"
| "truthy (Obj kvs) = True"

text \<open>Property read \<^verbatim>\<open>o.k\<close> (and destructuring): a missing property is \<^verbatim>\<open>undefined\<close>.\<close>

fun field :: "jsval \<Rightarrow> string \<Rightarrow> jsval" where
  "field (Obj kvs) k = (case map_of kvs k of Some v \<Rightarrow> v | None \<Rightarrow> Undefined)"
| "field v k = Undefined"

text \<open>The properties copied by the spread \<^verbatim>\<open>...o\<close>.\<close>

fun own_properties :: "jsval \<Rightarrow> (string \<times> jsval) list" where
  "own_properties (Obj kvs) = kvs"
| "own_properties v = []"

text \<open>The elements of an array; a value that is no array has none.\<close>

fun elements :: "jsval \<Rightarrow> jsval list" where
  "elements (Arr xs) = xs"
| "elements v = []"

text \<open>A destructuring default \<^verbatim>\<open>{ k = d }\<close> applies to \<^verbatim>\<open>undefined\<close> only.\<close>

definition with_default :: "jsval \<Rightarrow> jsval \<Rightarrow> jsval" where
  "with_default d v = (if v = Undefined then d else v)"

text \<open>
  The library functions of the language that the model needs are parameters: the
  parsers of numerals, the printing of numbers and objects, and the ISO format of a
  date.
\<close>

record js_runtime =
  parseFloat :: "string \<Rightarrow> jsnum"
  stringToNumber :: "string \<Rightarrow> jsnum"
  toStringOther :: "jsval \<Rightarrow> string"
  toISOString :: "int \<Rightarrow> string"

text \<open>The conversion made by a template literal \<^verbatim>\<open>`${v}`\<close>.\<close>

fun to_string :: "js_runtime \<Rightarrow> jsval \<Rightarrow> string" where
  "to_string rt (Str s) = s"
| "to_string rt Undefined = ''undefined''"
| "to_string rt Null = ''null''"
| "to_string rt (Bool b) = (if b then ''true'' else ''false'')"
| "to_string rt v = toStringOther rt v"

text \<open>The conversion made by the arithmetic operators \<^verbatim>\<open>-\<close>, \<^verbatim>\<open>*\<close> and \<^verbatim>\<open>/\<close>.\<close>

fun to_number :: "js_runtime \<Rightarrow> jsval \<Rightarrow> jsnum" where
  "to_number rt (Number n) = n"
| "to_number rt (Str s) = stringToNumber rt s"
| "to_number rt Undefined = NaN"
| "to_number rt Null = Num 0"
| "to_number rt (Bool b) = Num (if b then 1 else 0)"
| "to_number rt v = stringToNumber rt (toStringOther rt v)"

text \<open>\<^verbatim>\<open>n + d\<close> and \<^verbatim>\<open>n / d\<close> for a finite \<open>d\<close> (and \<open>d > 0\<close> in the quotient).\<close>

fun js_add :: "jsnum \<Rightarrow> real \<Rightarrow> jsnum" where
  "js_add (Num x) d = Num (x + d)"
| "js_add n d = n"

fun js_div :: "jsnum \<Rightarrow> real \<Rightarrow> jsnum" where
  "js_div (Num x) d = Num (x / d)"
| "js_div n d = n"

text \<open>
  What is left of a value after \<^verbatim>\<open>JSON.stringify\<close> and a parse of the text, which is
  how a payload reaches a \<^verbatim>\<open>jsonb\<close> column and comes back: a number that is not
  finite becomes \<^verbatim>\<open>null\<close>, a property whose value is \<^verbatim>\<open>undefined\<close> is left out, and
  \<^verbatim>\<open>undefined\<close> in an array becomes \<^verbatim>\<open>null\<close>. \<open>Undefined\<close> as a result says that
  nothing is written for the value.
\<close>

fun json_value :: "jsval \<Rightarrow> jsval" where
  "json_value (Number (Num x)) = Number (Num x)"
| "json_value (Number n) = Null"
| "json_value (Arr xs) =
     Arr (map (\<lambda>x. if json_value x = Undefined then Null else json_value x) xs)"
| "json_value (Obj kvs) =
     Obj (filter (\<lambda>kv. snd kv \<noteq> Undefined) (map (\<lambda>kv. (fst kv, json_value (snd kv))) kvs))"
| "json_value v = v"

text \<open>
  The time value of \<^verbatim>\<open>new Date(v)\<close> for a finite number \<open>v\<close>: the number cut to an
  integer, or no date at all beyond 8.64e15 milliseconds on either side of the
  epoch.
\<close>

definition time_clip :: "real \<Rightarrow> int option" where
  "time_clip v =
     (if \<bar>v\<bar> \<le> 8640000000000000 then Some (if 0 \<le> v then \<lfloor>v\<rfloor> else \<lceil>v\<rceil>) else None)"

section \<open>Writing to the cache (utils/cache.js)\<close>

text \<open>
  \<^verbatim>\<open>supabase.from('cache').upsert({key, value, expires_at})\<close>. The column \<^verbatim>\<open>value\<close> is
  \<^verbatim>\<open>NOT NULL\<close>: a payload that is \<^verbatim>\<open>null\<close>, or left out of the body, is refused. A new
  row takes the column default for \<^verbatim>\<open>created_at\<close>, a row that is already there keeps
  the columns that are not sent.
\<close>

definition upsert :: "int \<Rightarrow> string \<Rightarrow> jsval \<Rightarrow> int \<Rightarrow> jsval cache_store \<Rightarrow> jsval cache_store" where
  "upsert clock key v expires st =
     (if unavailable st \<or> v = Undefined \<or> v = Null then st
      else st\<lparr>entries := (entries st)(key \<mapsto>
             \<lparr>cvalue = v, expires_at = expires,
              created_at = (case entries st key of None \<Rightarrow> clock | Some old \<Rightarrow> created_at old)\<rparr>)\<rparr>)"

text \<open>
  \<^verbatim>\<open>setCachedData(key, value, ttlSeconds)\<close>. \<open>now\<close> is \<^verbatim>\<open>Date.now()\<close>. When the sum is
  no date, \<^verbatim>\<open>toISOString\<close> throws inside the \<^verbatim>\<open>try\<close>: the \<^verbatim>\<open>catch\<close> block logs and
  nothing is sent. The body of the request is JSON. An error of the upsert is logged
  and swallowed. Every caller passes the time to live, so the default of 3600 seconds
  is not modelled.
\<close>

definition setCachedData ::
  "int \<Rightarrow> string \<Rightarrow> jsval \<Rightarrow> jsnum \<Rightarrow> jsval cache_store \<Rightarrow> jsval cache_store" where
  "setCachedData now key v ttlSeconds st =
     (case ttlSeconds of
        Num ttl \<Rightarrow>
          (case time_clip (real_of_int now + ttl * 1000) of
             None \<Rightarrow> st
           | Some expiresAt \<Rightarrow> upsert now key (json_value v) expiresAt st)
      | _ \<Rightarrow> st)"

section \<open>The distance helper (routes/resources.js)\<close>

text \<open>\<^verbatim>\<open>Math.atan2(y, x)\<close> on finite arguments.\<close>

definition atan2 :: "real \<Rightarrow> real \<Rightarrow> real" where
  "atan2 y x =
     (if 0 < x then arctan (y / x)
      else if x < 0 then (if 0 \<le> y then arctan (y / x) + pi else arctan (y / x) - pi)
      else if 0 < y then pi / 2
      else if y < 0 then - (pi / 2)
      else 0)"

definition calculateDistance :: "real \<Rightarrow> real \<Rightarrow> real \<Rightarrow> real \<Rightarrow> real" where
  "calculateDistance lat1 lng1 lat2 lng2 =
     (let R = 6371;
          dLat = (lat2 - lat1) * pi / 180;
          dLng = (lng2 - lng1) * pi / 180;
          a = sin (dLat / 2) * sin (dLat / 2) +
              cos (lat1 * pi / 180) * cos (lat2 * pi / 180) *
              sin (dLng / 2) * sin (dLng / 2);
          c = 2 * atan2 (sqrt a) (sqrt (1 - a))
      in R * c)"

text \<open>
  The same function on JavaScript numbers. Each argument enters a difference that
  is passed to \<^verbatim>\<open>Math.sin\<close>, so one that is not finite makes the result \<^verbatim>\<open>NaN\<close>.
\<close>

fun calculateDistance_num :: "jsnum \<Rightarrow> jsnum \<Rightarrow> jsnum \<Rightarrow> jsnum \<Rightarrow> jsnum" where
  "calculateDistance_num (Num lat1) (Num lng1) (Num lat2) (Num lng2) =
     Num (calculateDistance lat1 lng1 lat2 lng2)"
| "calculateDistance_num lat1 lng1 lat2 lng2 = NaN"

text \<open>
  The formula in the words of the specification, on degrees: the haversine of the
  two differences in radians, and the Earth's radius of 6371 km.
\<close>

definition radians :: "real \<Rightarrow> real" where
  "radians d = d * pi / 180"

definition haversine_formula :: "real \<Rightarrow> real \<Rightarrow> real \<Rightarrow> real \<Rightarrow> real" where
  "haversine_formula lat1 lng1 lat2 lng2 =
     (let a = (sin ((radians lat2 - radians lat1) / 2))\<^sup>2 +
              cos (radians lat1) * cos (radians lat2) *
              (sin ((radians lng2 - radians lng1) / 2))\<^sup>2
      in 6371 * (2 * atan2 (sqrt a) (sqrt (1 - a))))"

section \<open>The datastore seen by the resource routes\<close>

text \<open>
  The tables the routes use: the cache (with responses as payload), the disasters
  by identifier (the route reads \<^verbatim>\<open>id, title\<close> of one row), and the rows of
  \<^verbatim>\<open>resources\<close> in storage order. Either table can be unavailable, as the cache can.
\<close>

record datastore =
  cache :: "jsval cache_store"
  disasters :: "string \<rightharpoonup> jsval"
  disasters_unavailable :: bool
  resources :: "jsval list"
  resources_unavailable :: bool

text \<open>
  What a query gives back to the handler: the call throws (the \<^verbatim>\<open>catch\<close> block of the
  handler runs), or it answers with an error, or with rows.
\<close>

datatype query_outcome = Thrown | Failed pg_error | Rows "jsval list"

text \<open>
  What the datastore does with an inserted object is not in the sources and is a
  parameter: it answers with an error, or with the row as it was stored (column
  defaults filled in).
\<close>

record backend =
  stored_row :: "jsval list \<Rightarrow> jsval \<Rightarrow> pg_error + jsval"

text \<open>
  What a request reads from outside: the clock in milliseconds, the successive
  results of \<^verbatim>\<open>Math.random()\<close> and of \<^verbatim>\<open>uuidv4()\<close>, numbered from 0 in call order.
\<close>

record env =
  time_ms :: int
  math_random :: "nat \<Rightarrow> real"
  uuidv4 :: "nat \<Rightarrow> string"

record response =
  status :: nat
  body :: jsval

text \<open>\<^verbatim>\<open>supabase.from('disasters').select('id, title').eq('id', disasterId).single()\<close>\<close>

definition select_disaster :: "datastore \<Rightarrow> string \<Rightarrow> pg_error + jsval" where
  "select_disaster ds disasterId =
     (if disasters_unavailable ds then Inl PgOther
      else case disasters ds disasterId of None \<Rightarrow> Inl PGRST116 | Some row \<Rightarrow> Inr row)"

text \<open>
  \<^verbatim>\<open>supabase.from('resources').select('*').eq('disaster_id', disasterId)\<close>, with
  \<^verbatim>\<open>.eq('type', type)\<close> added when \<open>type\<close> is truthy.
\<close>

definition select_resources :: "js_runtime \<Rightarrow> datastore \<Rightarrow> string \<Rightarrow> jsval \<Rightarrow> query_outcome" where
  "select_resources rt ds disasterId type =
     (if resources_unavailable ds then Failed PgOther
      else Rows (filter (\<lambda>row. field row ''disaster_id'' = Str disasterId \<and>
                               (if truthy type then field row ''type'' = Str (to_string rt type)
                                else True))
                        (resources ds)))"

text \<open>\<^verbatim>\<open>supabase.from('resources').insert([resource]).select().single()\<close>\<close>

definition insert_resource ::
  "backend \<Rightarrow> jsval \<Rightarrow> datastore \<Rightarrow> (pg_error + jsval) \<times> datastore" where
  "insert_resource be resource ds =
     (if resources_unavailable ds then (Inl PgOther, ds)
      else case stored_row be (resources ds) resource of
             Inl err \<Rightarrow> (Inl err, ds)
           | Inr row \<Rightarrow> (Inr row, ds\<lparr>resources := resources ds @ [row]\<rparr>))"

section \<open>GET /resources/:disasterId (routes/resources.js)\<close>

definition baseResources :: "jsval list" where
  "baseResources =
     [Obj [(''name'', Str ''Community Emergency Shelter''),
           (''type'', Str ''shelter''),
           (''capacity'', Number (Num 200)),
           (''contact_info'', Obj [(''phone'', Str ''(555) 123-4567''),
                                   (''email'', Str ''shelter@community.org'')])],
      Obj [(''name'', Str ''City General Hospital''),
           (''type'', Str ''medical''),
           (''capacity'', Number (Num 150)),
           (''contact_info'', Obj [(''phone'', Str ''(555) 987-6543''),
                                   (''emergency'', Str ''911'')])],
      Obj [(''name'', Str ''Food Distribution Center''),
           (''type'', Str ''food''),
           (''capacity'', Number (Num 500)),
           (''contact_info'', Obj [(''phone'', Str ''(555) 456-7890''),
                                   (''hours'', Str ''9AM-6PM'')])],
      Obj [(''name'', Str ''Emergency Supply Station''),
           (''type'', Str ''supplies''),
           (''capacity'', Number (Num 300)),
           (''contact_info'', Obj [(''phone'', Str ''(555) 234-5678''),
                                   (''coordinator'', Str ''Jane Smith'')])],
      Obj [(''name'', Str ''Temporary Housing Complex''),
           (''type'', Str ''housing''),
           (''capacity'', Number (Num 100)),
           (''contact_info'', Obj [(''phone'', Str ''(555) 345-6789''),
                                   (''manager'', Str ''Bob Johnson'')])]]"

text \<open>
  The callback of \<^verbatim>\<open>baseResources.map\<close>. The resource at \<open>index\<close> makes the calls
  \<open>2 * index\<close> and \<open>2 * index + 1\<close> of \<^verbatim>\<open>Math.random()\<close> and the call \<open>index\<close> of
  \<^verbatim>\<open>uuidv4()\<close>. The centre arrives as the raw query values: \<^verbatim>\<open>parseFloat\<close> reads
  them for the coordinates, and \<^verbatim>\<open>calculateDistance\<close> gets them unparsed, so its
  arithmetic converts them.
\<close>

definition mock_resource ::
  "js_runtime \<Rightarrow> env \<Rightarrow> string \<Rightarrow> jsval \<Rightarrow> jsval \<Rightarrow> nat \<Rightarrow> jsval \<Rightarrow> jsval" where
  "mock_resource rt e disasterId centerLat centerLng index resource =
     (let (lat, lng) =
            (if truthy centerLat \<and> truthy centerLng then
               (let offsetLat = (math_random e (2 * index) - 0.5) * 0.1;
                    offsetLng = (math_random e (2 * index + 1) - 0.5) * 0.1
                in (js_add (parseFloat rt (to_string rt centerLat)) offsetLat,
                    js_add (parseFloat rt (to_string rt centerLng)) offsetLng))
             else
               (Num (40.7128 + (math_random e (2 * index) - 0.5) * 0.1),
                Num (- 74.0060 + (math_random e (2 * index + 1) - 0.5) * 0.1)))
      in Obj ([(''id'', Str (uuidv4 e index)),
               (''disaster_id'', Str disasterId)] @
              own_properties resource @
              [(''location_name'', Str (to_string rt (field resource ''name'') @ '' Location'')),
               (''latitude'', Number lat),
               (''longitude'', Number lng),
               (''distance_km'',
                  if truthy centerLat \<and> truthy centerLng
                  then Number (calculateDistance_num (to_number rt centerLat)
                                 (to_number rt centerLng) lat lng)
                  else Null),
               (''created_at'', Str (toISOString rt (time_ms e)))]))"

definition generateMockResources ::
  "js_runtime \<Rightarrow> env \<Rightarrow> string \<Rightarrow> jsval \<Rightarrow> jsval \<Rightarrow> jsval list" where
  "generateMockResources rt e disasterId centerLat centerLng =
     map (\<lambda>(index, resource). mock_resource rt e disasterId centerLat centerLng index resource)
         (enumerate 0 baseResources)"

definition cache_key :: "js_runtime \<Rightarrow> string \<Rightarrow> jsval \<Rightarrow> jsval \<Rightarrow> jsval \<Rightarrow> jsval \<Rightarrow> string" where
  "cache_key rt disasterId lat lng radius type =
     ''resources_'' @ disasterId @ ''_'' @ to_string rt lat @ ''_'' @ to_string rt lng @
     ''_'' @ to_string rt radius @ ''_'' @ to_string rt type"

text \<open>
  The query of lines 40 to 61. \<^verbatim>\<open>query\<close> is what \<^verbatim>\<open>.select('*').eq(...)\<close> returns, a
  filter builder of the client library. Only the client itself has a method \<^verbatim>\<open>rpc\<close>;
  the builder has none, so with both coordinates truthy the call \<^verbatim>\<open>query.rpc(...)\<close>
  of line 53 throws a \<^verbatim>\<open>TypeError\<close> and no request is made. (The migration defines
  no function \<^verbatim>\<open>get_resources_within_distance\<close> either.) Otherwise the plain select is
  awaited.
\<close>

definition resources_query ::
  "js_runtime \<Rightarrow> datastore \<Rightarrow> string \<Rightarrow> jsval \<Rightarrow> jsval \<Rightarrow> jsval \<Rightarrow> jsval \<Rightarrow> query_outcome" where
  "resources_query rt ds disasterId lat lng radius type =
     (if truthy lat \<and> truthy lng then Thrown
      else select_resources rt ds disasterId type)"

definition error_response :: "nat \<Rightarrow> string \<Rightarrow> response" where
  "error_response code msg = \<lparr>status = code, body = Obj [(''error'', Str msg)]\<rparr>"

text \<open>
  The response object of both branches (lines 72 to 80 and 88 to 96);
  \<^verbatim>\<open>res.json\<close> sends it with status 200.
\<close>

definition resources_response ::
  "js_runtime \<Rightarrow> env \<Rightarrow> string \<Rightarrow> jsval \<Rightarrow> jsval \<Rightarrow> jsval \<Rightarrow> jsval \<Rightarrow> jsval list \<Rightarrow> jsval" where
  "resources_response rt e disasterId disaster lat lng radius rows =
     Obj [(''disaster_id'', Str disasterId),
          (''disaster_title'', field disaster ''title''),
          (''search_center'',
             if truthy lat \<and> truthy lng
             then Obj [(''lat'', Number (parseFloat rt (to_string rt lat))),
                       (''lng'', Number (parseFloat rt (to_string rt lng)))]
             else Null),
          (''search_radius_km'', Number (js_div (to_number rt radius) 1000)),
          (''total_resources'', Number (Num (real (length rows)))),
          (''resources'', Arr rows),
          (''last_updated'', Str (toISOString rt (time_ms e)))]"

text \<open>
  The handler after a cache miss (lines 25 to 103): the check that the disaster
  exists, the query, the mock data for an empty answer, and the write to the cache
  with a time to live of 1800 seconds. A query that throws is caught by the
  \<^verbatim>\<open>catch\<close> block of lines 104 to 107.
\<close>

definition fetch_resources ::
  "js_runtime \<Rightarrow> env \<Rightarrow> string \<Rightarrow> string \<Rightarrow> jsval \<Rightarrow> jsval \<Rightarrow> jsval \<Rightarrow> jsval
   \<Rightarrow> datastore \<Rightarrow> response \<times> datastore" where
  "fetch_resources rt e cacheKey disasterId lat lng radius type ds =
     (case select_disaster ds disasterId of
        Inl disasterError \<Rightarrow>
          if disasterError = PGRST116 then (error_response 404 ''Disaster not found'', ds)
          else (error_response 500 ''Failed to fetch disaster'', ds)
      | Inr disaster \<Rightarrow>
          (case resources_query rt ds disasterId lat lng radius type of
             Thrown \<Rightarrow> (error_response 500 ''Internal server error'', ds)
           | Failed err \<Rightarrow> (error_response 500 ''Failed to fetch resources'', ds)
           | Rows rows \<Rightarrow>
               if length rows = 0 then
                 (let mockResources = generateMockResources rt e disasterId lat lng;
                      response = resources_response rt e disasterId disaster lat lng radius
                                   mockResources
                  in (\<lparr>status = 200, body = response\<rparr>,
                      ds\<lparr>cache := setCachedData (time_ms e) cacheKey response (Num 1800) (cache ds)\<rparr>))
               else
                 (let response = resources_response rt e disasterId disaster lat lng radius rows
                  in (\<lparr>status = 200, body = response\<rparr>,
                      ds\<lparr>cache := setCachedData (time_ms e) cacheKey response (Num 1800) (cache ds)\<rparr>))))"

text \<open>
  The handler. \<open>query\<close> is \<^verbatim>\<open>req.query\<close>, an object; a parameter given once is a
  string there, so \<^verbatim>\<open>?lat=0\<close> is the string \<^verbatim>\<open>"0"\<close>. The request sees one clock
  value.
\<close>

definition get_resources ::
  "js_runtime \<Rightarrow> env \<Rightarrow> string \<Rightarrow> jsval \<Rightarrow> datastore \<Rightarrow> response \<times> datastore" where
  "get_resources rt e disasterId query ds =
     (let lat = field query ''lat'';
          lng = field query ''lng'';
          radius = with_default (Number (Num 10000)) (field query ''radius'');
          type = field query ''type'';
          cacheKey = cache_key rt disasterId lat lng radius type;
          (cachedData, cache') = getCachedData (time_ms e) cacheKey (cache ds);
          ds' = ds\<lparr>cache := cache'\<rparr>
      in case cachedData of
           Some v \<Rightarrow>
             if truthy v then (\<lparr>status = 200, body = v\<rparr>, ds')
             else fetch_resources rt e cacheKey disasterId lat lng radius type ds'
         | None \<Rightarrow> fetch_resources rt e cacheKey disasterId lat lng radius type ds')"

section \<open>POST /resources (routes/resources.js)\<close>

text \<open>
  The object built in lines 197 to 210 from \<^verbatim>\<open>req.body\<close>. The point is added only
  when both coordinates are truthy.
\<close>

definition build_resource :: "js_runtime \<Rightarrow> env \<Rightarrow> jsval \<Rightarrow> jsval" where
  "build_resource rt e reqbody =
     (let lat = field reqbody ''lat'';
          lng = field reqbody ''lng'';
          resource =
            [(''id'', Str (uuidv4 e 0)),
             (''disaster_id'', field reqbody ''disaster_id''),
             (''name'', field reqbody ''name''),
             (''location_name'', field reqbody ''location_name''),
             (''type'', field reqbody ''type''),
             (''capacity'', with_default (Number (Num 0)) (field reqbody ''capacity'')),
             (''contact_info'', with_default (Obj []) (field reqbody ''contact_info''))]
      in if truthy lat \<and> truthy lng
         then Obj (resource @
                [(''location'',
                  Str (''POINT('' @ to_string rt lng @ '' '' @ to_string rt lat @ '')''))])
         else Obj resource)"

text \<open>
  What the handler does to the outside, in order: a call of the insert with the
  object sent and the answer, and an event sent to a room of the socket server.
\<close>

datatype effect =
    DbInsert jsval "pg_error + jsval"
  | Emit string string jsval

text \<open>
  The handler, which runs behind \<^verbatim>\<open>authenticateUser\<close>. \<open>reqbody\<close> is the parsed JSON
  body, an object.
\<close>

definition post_resource ::
  "js_runtime \<Rightarrow> backend \<Rightarrow> env \<Rightarrow> jsval \<Rightarrow> datastore \<Rightarrow> response \<times> datastore \<times> effect list" where
  "post_resource rt be e reqbody ds =
     (let disaster_id = field reqbody ''disaster_id'';
          name = field reqbody ''name'';
          type = field reqbody ''type''
      in if \<not> truthy disaster_id \<or> \<not> truthy name \<or> \<not> truthy type
         then (error_response 400 ''disaster_id, name, and type are required'', ds, [])
         else
           (let resource = build_resource rt e reqbody;
                (answer, ds') = insert_resource be resource ds
            in case answer of
                 Inl err \<Rightarrow>
                   (error_response 500 ''Failed to create resource'', ds',
                    [DbInsert resource answer])
               | Inr data \<Rightarrow>
                   (\<lparr>status = 201, body = Obj [(''resource'', data)]\<rparr>, ds',
                    [DbInsert resource answer,
                     Emit (''disaster_'' @ to_string rt disaster_id) ''resources_updated'' data])))"

section \<open>Sample inputs\<close>

text \<open>
  A cache with one entry, under the key \<open>k\<close>, that expires at time 1000; and a
  cache of JSON payloads with one entry that expires at time 5000.
\<close>

definition cache1 :: "jsval cache_store" where
  "cache1 = \<lparr>entries = [''k'' \<mapsto> \<lparr>cvalue = Str ''old'', expires_at = 5000, created_at = 0\<rparr>],
             unavailable = False\<rparr>"

definition cache0 :: "string cache_store" where
  "cache0 = \<lparr>entries = [''k'' \<mapsto> \<lparr>cvalue = ''v'', expires_at = 1000, created_at = 0\<rparr>],
             unavailable = False\<rparr>"

text \<open>
  Library functions given by tables that agree with the language on the values
  that occur in the examples: \<^verbatim>\<open>parseFloat("abc")\<close> is \<^verbatim>\<open>NaN\<close>, \<^verbatim>\<open>String(10000)\<close> is
  \<^verbatim>\<open>"10000"\<close>, the dates 1000 and 2000 are one and two seconds after the epoch.
\<close>

definition rt0 :: js_runtime where
  "rt0 = \<lparr>parseFloat = (\<lambda>s. if s = ''40.7128'' then Num 40.7128
                            else if s = ''-74.0060'' then Num (- 74.0060)
                            else if s = ''0'' then Num 0 else NaN),
          stringToNumber = (\<lambda>s. if s = ''40.7128'' then Num 40.7128
                                else if s = ''-74.0060'' then Num (- 74.0060)
                                else if s = ''0'' then Num 0 else NaN),
          toStringOther = (\<lambda>v. if v = Number (Num 10000) then ''10000''
                               else if v = Number (Num 0) then ''0'' else ''[object Object]''),
          toISOString = (\<lambda>t. if t = 1000 then ''1970-01-01T00:00:01.000Z''
                             else ''1970-01-01T00:00:02.000Z'')\<rparr>"

text \<open>A datastore that stores an inserted object as it is sent.\<close>

definition be0 :: backend where
  "be0 = \<lparr>stored_row = (\<lambda>rows resource. Inr resource)\<rparr>"

text \<open>At time 1000; the random numbers are 1/2, 1/3, 1/4, ..., the identifiers u, uu, uuu, ...\<close>

definition env0 :: env where
  "env0 = \<lparr>time_ms = 1000, math_random = (\<lambda>k. 1 / (real k + 2)),
           uuidv4 = (\<lambda>k. replicate (Suc k) CHR ''u'')\<rparr>"

text \<open>One disaster \<open>d1\<close>, no resources, an empty cache.\<close>

definition ds0 :: datastore where
  "ds0 = \<lparr>cache = \<lparr>entries = Map.empty, unavailable = False\<rparr>,
          disasters = [''d1'' \<mapsto> Obj [(''id'', Str ''d1''), (''title'', Str ''Flood'')]],
          disasters_unavailable = False,
          resources = [],
          resources_unavailable = False\<rparr>"

text \<open>The same with one stored resource of \<open>d1\<close>, a row with the columns of the table.\<close>

definition row1 :: jsval where
  "row1 = Obj [(''id'', Str ''r1''), (''disaster_id'', Str ''d1''), (''name'', Str ''Shelter A''),
               (''location_name'', Null), (''location'', Null), (''type'', Str ''shelter''),
               (''capacity'', Number (Num 50)), (''contact_info'', Obj []),
               (''created_at'', Str ''1970-01-01T00:00:00.500Z'')]"

definition ds1 :: datastore where
  "ds1 = ds0\<lparr>resources := [row1]\<rparr>"

text \<open>
  Query strings: \<^verbatim>\<open>?lat=40.7128&lng=-74.0060\<close>, \<^verbatim>\<open>?lat=0&lng=0\<close> and \<^verbatim>\<open>?lat=&lng=\<close>. The
  query without parameters is \<open>Obj []\<close>.
\<close>

definition q_center :: jsval where
  "q_center = Obj [(''lat'', Str ''40.7128''), (''lng'', Str ''-74.0060'')]"

definition q_zero :: jsval where
  "q_zero = Obj [(''lat'', Str ''0''), (''lng'', Str ''0'')]"

definition q_empty :: jsval where
  "q_empty = Obj [(''lat'', Str []), (''lng'', Str [])]"

text \<open>Two JSON bodies: a complete one with the number 0 as latitude, and one without a name.\<close>

definition body_ok :: jsval where
  "body_ok = Obj [(''disaster_id'', Str ''d1''), (''name'', Str ''Shelter A''),
                  (''location_name'', Str ''Main St''), (''lat'', Number (Num 0)),
                  (''lng'', Number (Num (- 74.0060))), (''type'', Str ''shelter'')]"

definition body_noname :: jsval where
  "body_noname = Obj [(''disaster_id'', Str ''d1''), (''type'', Str ''shelter'')]"

section \<open>Properties of the cache\<close>

lemma select_single_simps:
  "unavailable st \<Longrightarrow> select_single st key = Inl PgOther"
  "\<not> unavailable st \<Longrightarrow> entries st key = None \<Longrightarrow> select_single st key = Inl PGRST116"
  "\<not> unavailable st \<Longrightarrow> entries st key = Some row \<Longrightarrow> select_single st key = Inr row"
  by (simp_all add: select_single_def)

text \<open>
  Claim C2, as amended. When the lookup itself fails, \<open>getCachedData\<close> returns absent
  and leaves the table alone. Otherwise it returns a value exactly when an entry for
  the key exists whose expiry is not earlier than the current time (the test of the
  code is \<^verbatim>\<open>expires_at < now\<close>, so an entry that expires at this very instant is
  still served), and the value is the stored one. A hit leaves the table unchanged;
  an entry found expired is removed, and only that entry; a missing entry changes
  nothing.
\<close>

theorem getCachedData_contract:
  fixes st :: "'v cache_store"
  shows "(unavailable st \<longrightarrow> getCachedData now key st = (None, st)) \<and>
         (\<not> unavailable st \<longrightarrow>
            (\<forall>v. fst (getCachedData now key st) = Some v \<longleftrightarrow>
                 (\<exists>row. entries st key = Some row \<and> now \<le> expires_at row \<and> v = cvalue row)) \<and>
            (\<forall>row. entries st key = Some row \<and> now \<le> expires_at row \<longrightarrow>
                 snd (getCachedData now key st) = st) \<and>
            (\<forall>row. entries st key = Some row \<and> expires_at row < now \<longrightarrow>
                 snd (getCachedData now key st) = st\<lparr>entries := (entries st)(key := None)\<rparr>) \<and>
            (entries st key = None \<longrightarrow> snd (getCachedData now key st) = st))"
proof (cases "unavailable st")
  case True
  then show ?thesis by (simp add: getCachedData_def select_single_simps)
next
  case False
  show ?thesis
  proof (cases "entries st key")
    case None
    with False show ?thesis by (simp add: getCachedData_def select_single_simps)
  next
    case (Some row)
    with False show ?thesis
      by (auto simp add: getCachedData_def select_single_simps delete_eq_key_def)
  qed
qed

text \<open>
  The entry of \<open>cache0\<close> is served one millisecond before its expiry, and refused
  and removed one millisecond after it.
\<close>

theorem getCachedData_contract_witness:
  "fst (getCachedData 999 ''k'' cache0) = Some ''v'' \<and>
   fst (getCachedData 1001 ''k'' cache0) = None \<and>
   entries (snd (getCachedData 1001 ''k'' cache0)) ''k'' = None"
  using getCachedData_contract [of cache0 999 "''k''"]
        getCachedData_contract [of cache0 1001 "''k''"]
  by (simp add: cache0_def)

text \<open>
  Claim C2 as stated fails at the boundary: at time 1000 the expiry of the entry is
  not strictly greater than the current time, and the value is returned all the same.
\<close>

theorem getCachedData_boundary_counterexample:
  "entries cache0 ''k'' = Some \<lparr>cvalue = ''v'', expires_at = 1000, created_at = 0\<rparr> \<and>
   \<not> (1000 :: int) < 1000 \<and>
   fst (getCachedData 1000 ''k'' cache0) = Some ''v''"
  by (simp add: cache0_def getCachedData_def select_single_def)

text \<open>
  Claim C3, as amended. On a cache table that answers, take a time to live
  \<open>ttl > 0\<close> for which the time of writing plus \<open>1000 * ttl\<close> is a date, and a value
  that JSON can carry and that is not \<^verbatim>\<open>null\<close>. Then \<open>setCachedData\<close> followed by
  \<open>getCachedData\<close> for the same key, at any time from the time of writing up to the
  expiry, returns the value as JSON carries it, which is the value itself when JSON
  leaves it unchanged; this holds whatever the table held for the key before. The
  new entry expires at the time of writing plus the time to live, cut to whole
  milliseconds, which is not earlier than the time of writing.
\<close>

lemma time_clip_lower:
  assumes "0 < ttl" and "time_clip (real_of_int t1 + ttl * 1000) = Some ex"
  shows "t1 \<le> ex"
proof -
  let ?v = "real_of_int t1 + ttl * 1000"
  have lt: "real_of_int t1 \<le> ?v" using assms(1) by simp
  show ?thesis
  proof (cases "0 \<le> ?v")
    case True
    with assms(2) have "ex = \<lfloor>?v\<rfloor>" by (simp add: time_clip_def split: if_splits)
    with lt show ?thesis by (simp add: le_floor_iff)
  next
    case False
    with assms(2) have "ex = \<lceil>?v\<rceil>" by (simp add: time_clip_def split: if_splits)
    moreover have "real_of_int t1 \<le> real_of_int \<lceil>?v\<rceil>"
      using lt le_of_int_ceiling [of ?v] by linarith
    ultimately show ?thesis by simp
  qed
qed

theorem set_then_get:
  assumes "\<not> unavailable st" and "0 < ttl"
    and "time_clip (real_of_int t1 + ttl * 1000) = Some ex"
    and "t1 \<le> t2" and "t2 \<le> ex"
    and "json_value v \<noteq> Undefined" and "json_value v \<noteq> Null"
  shows "fst (getCachedData t2 key (setCachedData t1 key v (Num ttl) st)) = Some (json_value v) \<and>
         (json_value v = v \<longrightarrow>
            fst (getCachedData t2 key (setCachedData t1 key v (Num ttl) st)) = Some v) \<and>
         map_option expires_at (entries (setCachedData t1 key v (Num ttl) st) key) = Some ex \<and>
         t1 \<le> ex"
proof -
  have w: "setCachedData t1 key v (Num ttl) st =
             st\<lparr>entries := (entries st)(key \<mapsto>
               \<lparr>cvalue = json_value v, expires_at = ex,
                created_at = (case entries st key of None \<Rightarrow> t1 | Some old \<Rightarrow> created_at old)\<rparr>)\<rparr>"
    using assms by (simp add: setCachedData_def upsert_def)
  have g: "fst (getCachedData t2 key (setCachedData t1 key v (Num ttl) st)) = Some (json_value v)"
    unfolding w using assms(1,5) by (simp add: getCachedData_def select_single_def)
  have e: "map_option expires_at (entries (setCachedData t1 key v (Num ttl) st) key) = Some ex"
    unfolding w by simp
  from g e time_clip_lower [OF assms(2,3)] show ?thesis by simp
qed

text \<open>
  Overwriting the entry of \<open>cache1\<close> at time 2000 for 1800 seconds and reading it
  5 ms later.
\<close>

theorem set_then_get_witness:
  "fst (getCachedData 2005 ''k''
          (setCachedData 2000 ''k'' (Obj [(''total_resources'', Number (Num 5))]) (Num 1800) cache1)) =
     Some (Obj [(''total_resources'', Number (Num 5))]) \<and>
   map_option expires_at
     (entries (setCachedData 2000 ''k'' (Obj [(''total_resources'', Number (Num 5))]) (Num 1800) cache1)
        ''k'') = Some 1802000"
proof -
  have a: "\<not> unavailable cache1" by (simp add: cache1_def)
  have c: "time_clip (real_of_int 2000 + 1800 * 1000) = Some 1802000"
    by (simp add: time_clip_def)
  have j: "json_value (Obj [(''total_resources'', Number (Num 5))]) =
             Obj [(''total_resources'', Number (Num 5))]"
    by simp
  have n: "json_value (Obj [(''total_resources'', Number (Num 5))]) \<noteq> Undefined"
    "json_value (Obj [(''total_resources'', Number (Num 5))]) \<noteq> Null"
    by simp_all
  from set_then_get [OF a _ c _ _ n, of 2005 "''k''"] j show ?thesis by simp
qed

text \<open>
  Claim C3 as stated fails for a value that JSON does not carry, and for a time to
  live that leads beyond the last date. A response whose radius is \<^verbatim>\<open>NaN\<close> comes
  back with the radius \<^verbatim>\<open>null\<close>. With a time to live of 8.64e15 seconds the expiry is
  no date, nothing is written, and the read returns the entry that was there before.
\<close>

theorem set_then_get_counterexample:
  "fst (getCachedData 2000 ''k''
          (setCachedData 2000 ''k'' (Obj [(''search_radius_km'', Number NaN)]) (Num 1800) cache1)) =
     Some (Obj [(''search_radius_km'', Null)]) \<and>
   fst (getCachedData 2000 ''k''
          (setCachedData 2000 ''k'' (Str ''new'') (Num 8640000000000000) cache1)) =
     Some (Str ''old'')"
  by (simp add: cache1_def setCachedData_def upsert_def time_clip_def getCachedData_def
        select_single_def)

text \<open>
  Claim C8, as amended. When the delete fails the sweep changes nothing. Otherwise
  \<open>cleanExpiredCache\<close> deletes exactly the entries whose expiry is strictly earlier
  than the current time (the filter of the code is \<^verbatim>\<open>lt\<close>), leaves every entry with
  an expiry at or after the current time as it is, and adds none.
\<close>

theorem cleanExpiredCache_contract:
  fixes st :: "'v cache_store"
  shows "(unavailable st \<longrightarrow> cleanExpiredCache now st = st) \<and>
         (\<not> unavailable st \<longrightarrow>
            (\<forall>k row. entries st k = Some row \<longrightarrow>
                 entries (cleanExpiredCache now st) k =
                   (if expires_at row < now then None else Some row)) \<and>
            (\<forall>k. entries st k = None \<longrightarrow> entries (cleanExpiredCache now st) k = None) \<and>
            \<not> unavailable (cleanExpiredCache now st))"
  by (simp add: cleanExpiredCache_def delete_lt_expires_at_def)

text \<open>A sweep at time 1001 deletes the entry of \<open>cache0\<close>, a sweep at time 999 keeps it.\<close>

theorem cleanExpiredCache_contract_witness:
  "entries (cleanExpiredCache 1001 cache0) ''k'' = None \<and>
   entries (cleanExpiredCache 999 cache0) ''k'' = entries cache0 ''k''"
  using cleanExpiredCache_contract [of cache0 1001] cleanExpiredCache_contract [of cache0 999]
  by (simp add: cache0_def)

text \<open>
  Claim C8 as stated fails at the boundary: the entry of \<open>cache0\<close> has an expiry less
  than or equal to the current time 1000, and the sweep at time 1000 keeps it.
\<close>

theorem cleanExpiredCache_boundary_counterexample:
  "entries (cleanExpiredCache 1000 cache0) ''k'' =
     Some \<lparr>cvalue = ''v'', expires_at = 1000, created_at = 0\<rparr> \<and> (1000::int) \<le> 1000"
  by (simp add: cache0_def cleanExpiredCache_def delete_lt_expires_at_def)

section \<open>Properties of the distance helper\<close>

lemma half_angle_swap:
  "sin ((x - y) * pi / 180 / 2) * sin ((x - y) * pi / 180 / 2) =
   sin ((y - x) * pi / 180 / 2) * sin ((y - x) * pi / 180 / 2)"
proof -
  have "(x - y) * pi / 180 / 2 = - ((y - x) * pi / 180 / 2)"
    by (simp add: field_simps)
  then show ?thesis
    by (simp only: sin_minus minus_mult_minus)
qed

lemma haversine_term_swap:
  "sin ((lat1 - lat2) * pi / 180 / 2) * sin ((lat1 - lat2) * pi / 180 / 2) +
     cos (lat2 * pi / 180) * cos (lat1 * pi / 180) *
     sin ((lng1 - lng2) * pi / 180 / 2) * sin ((lng1 - lng2) * pi / 180 / 2) =
   sin ((lat2 - lat1) * pi / 180 / 2) * sin ((lat2 - lat1) * pi / 180 / 2) +
     cos (lat1 * pi / 180) * cos (lat2 * pi / 180) *
     sin ((lng2 - lng1) * pi / 180 / 2) * sin ((lng2 - lng1) * pi / 180 / 2)"
proof -
  have "cos (lat2 * pi / 180) * cos (lat1 * pi / 180) *
          sin ((lng1 - lng2) * pi / 180 / 2) * sin ((lng1 - lng2) * pi / 180 / 2) =
        cos (lat1 * pi / 180) * cos (lat2 * pi / 180) *
          (sin ((lng1 - lng2) * pi / 180 / 2) * sin ((lng1 - lng2) * pi / 180 / 2))"
    by (simp add: mult.commute mult.assoc)
  also have "\<dots> = cos (lat1 * pi / 180) * cos (lat2 * pi / 180) *
          (sin ((lng2 - lng1) * pi / 180 / 2) * sin ((lng2 - lng1) * pi / 180 / 2))"
    by (simp only: half_angle_swap [of lng1 lng2])
  finally show ?thesis
    by (simp only: half_angle_swap [of lat1 lat2] mult.assoc)
qed

lemma calculateDistance_sym:
  "calculateDistance lat1 lng1 lat2 lng2 = calculateDistance lat2 lng2 lat1 lng1"
  unfolding calculateDistance_def Let_def
  by (simp only: haversine_term_swap [of lat1 lat2 lng1 lng2])

lemma atan2_zero_one: "atan2 0 1 = 0"
  by (simp add: atan2_def)

lemma calculateDistance_same: "calculateDistance lat lng lat lng = 0"
  by (simp add: calculateDistance_def atan2_zero_one)

lemma calculateDistance_haversine:
  "calculateDistance lat1 lng1 lat2 lng2 = haversine_formula lat1 lng1 lat2 lng2"
proof -
  have d: "(radians x - radians y) / 2 = (x - y) * pi / 180 / 2" for x y
    by (simp add: radians_def algebra_simps diff_divide_distrib)
  show ?thesis
    unfolding calculateDistance_def haversine_formula_def Let_def d power2_eq_square
    by (simp add: radians_def mult.assoc)
qed

text \<open>
  Claim C4. On finite coordinates in degrees, read as real numbers,
  \<open>calculateDistance\<close> is the haversine formula of the specification with the radius
  6371 km, it is symmetric in its two points, and the distance from a point to itself
  is 0.
\<close>

theorem calculateDistance_is_symmetric_haversine:
  "calculateDistance lat1 lng1 lat2 lng2 = haversine_formula lat1 lng1 lat2 lng2 \<and>
   calculateDistance lat1 lng1 lat2 lng2 = calculateDistance lat2 lng2 lat1 lng1 \<and>
   calculateDistance lat1 lng1 lat1 lng1 = 0"
  using calculateDistance_haversine [of lat1 lng1 lat2 lng2]
        calculateDistance_sym [of lat1 lng1 lat2 lng2]
        calculateDistance_same [of lat1 lng1]
  by (intro conjI)

section \<open>Properties of GET /resources/:disasterId\<close>

lemmas sample_defs =
  rt0_def be0_def env0_def ds0_def ds1_def row1_def q_center_def q_zero_def q_empty_def

lemma generateMockResources_unfold:
  "generateMockResources rt e d clat clng =
     map (\<lambda>i. mock_resource rt e d clat clng i (baseResources ! i)) [0..<5]"
  by (simp add: generateMockResources_def baseResources_def enumerate_eq_zip upt_rec)

lemmas handler_defs =
  get_resources_def cache_key_def with_default_def getCachedData_def select_single_def
  delete_eq_key_def fetch_resources_def select_disaster_def resources_query_def
  select_resources_def generateMockResources_unfold resources_response_def mock_resource_def
  baseResources_def setCachedData_def upsert_def time_clip_def error_response_def

lemma length_generateMockResources: "length (generateMockResources rt e d clat clng) = 5"
  by (simp add: generateMockResources_unfold)

lemma nth_generateMockResources:
  "i < 5 \<Longrightarrow> generateMockResources rt e d clat clng ! i =
     mock_resource rt e d clat clng i (baseResources ! i)"
  by (simp add: generateMockResources_unfold del: upt_Suc)

lemma lt5_cases: "i < 5 \<Longrightarrow> i = 0 \<or> i = 1 \<or> i = 2 \<or> i = 3 \<or> i = (4::nat)"
  by arith

lemma base_shape:
  assumes "i < 5"
  shows "\<exists>n t c ci. baseResources ! i =
           Obj [(''name'', n), (''type'', t), (''capacity'', c), (''contact_info'', ci)]"
  using lt5_cases [OF assms] by (auto simp add: baseResources_def)

lemma mock_resource_fields:
  assumes "resource = Obj [(''name'', n), (''type'', t), (''capacity'', c), (''contact_info'', ci)]"
  shows "field (mock_resource rt e d clat clng i resource) ''id'' = Str (uuidv4 e i)"
    and "field (mock_resource rt e d clat clng i resource) ''disaster_id'' = Str d"
    and "field (mock_resource rt e d clat clng i resource) ''type'' = t"
  by (simp_all add: assms mock_resource_def Let_def split_beta)

lemma mock_resource_default:
  assumes "resource = Obj [(''name'', n), (''type'', t), (''capacity'', c), (''contact_info'', ci)]"
    and "\<not> (truthy clat \<and> truthy clng)"
  shows "field (mock_resource rt e d clat clng i resource) ''latitude'' =
           Number (Num (40.7128 + (math_random e (2 * i) - 0.5) * 0.1))"
    and "field (mock_resource rt e d clat clng i resource) ''longitude'' =
           Number (Num (- 74.0060 + (math_random e (2 * i + 1) - 0.5) * 0.1))"
    and "map_of (own_properties (mock_resource rt e d clat clng i resource)) ''distance_km'' =
           Some Null"
  using assms(2) by (auto simp add: assms(1) mock_resource_def Let_def)

lemma jitter_bound:
  fixes r :: real
  assumes "0 \<le> r" and "r < 1"
  shows "\<bar>(c + (r - 0.5) * 0.1) - c\<bar> \<le> 0.05"
proof -
  have "(c + (r - 0.5) * 0.1) - c = (r - 0.5) * 0.1" by simp
  moreover have "- 0.05 \<le> (r - 0.5) * 0.1" using assms by simp
  moreover have "(r - 0.5) * 0.1 \<le> 0.05" using assms by simp
  ultimately show ?thesis by (simp only: abs_le_iff) simp
qed

lemma rnd0: "\<forall>k. 0 \<le> math_random env0 k \<and> math_random env0 k < 1"
  by (simp add: env0_def)

lemma resources_query_cache:
  "resources_query rt (ds\<lparr>cache := c\<rparr>) d lat lng radius type =
   resources_query rt ds d lat lng radius type"
  by (simp add: resources_query_def select_resources_def)

lemma get_resources_miss:
  assumes "fst (getCachedData (time_ms e)
             (cache_key rt d (field query ''lat'') (field query ''lng'')
                (with_default (Number (Num 10000)) (field query ''radius'')) (field query ''type''))
             (cache ds)) = None"
  shows "get_resources rt e d query ds =
           fetch_resources rt e
             (cache_key rt d (field query ''lat'') (field query ''lng'')
                (with_default (Number (Num 10000)) (field query ''radius'')) (field query ''type''))
             d (field query ''lat'') (field query ''lng'')
             (with_default (Number (Num 10000)) (field query ''radius'')) (field query ''type'')
             (ds\<lparr>cache := snd (getCachedData (time_ms e)
                (cache_key rt d (field query ''lat'') (field query ''lng'')
                   (with_default (Number (Num 10000)) (field query ''radius'')) (field query ''type''))
                (cache ds))\<rparr>)"
  using assms by (simp add: get_resources_def Let_def split_beta)

lemma get_resources_hit:
  assumes "fst (getCachedData (time_ms e)
             (cache_key rt d (field query ''lat'') (field query ''lng'')
                (with_default (Number (Num 10000)) (field query ''radius'')) (field query ''type''))
             (cache ds)) = Some v"
    and "truthy v"
  shows "get_resources rt e d query ds =
           (\<lparr>status = 200, body = v\<rparr>,
            ds\<lparr>cache := snd (getCachedData (time_ms e)
                (cache_key rt d (field query ''lat'') (field query ''lng'')
                   (with_default (Number (Num 10000)) (field query ''radius'')) (field query ''type''))
                (cache ds))\<rparr>)"
  using assms by (simp add: get_resources_def Let_def split_beta)

lemma fetch_resources_not_found:
  assumes "\<not> disasters_unavailable ds" and "disasters ds d = None"
  shows "fetch_resources rt e key d lat lng radius type ds =
           (\<lparr>status = 404, body = Obj [(''error'', Str ''Disaster not found'')]\<rparr>, ds)"
  using assms by (simp add: fetch_resources_def select_disaster_def error_response_def)

lemma fetch_resources_lookup_failed:
  assumes "disasters_unavailable ds"
  shows "fetch_resources rt e key d lat lng radius type ds =
           (\<lparr>status = 500, body = Obj [(''error'', Str ''Failed to fetch disaster'')]\<rparr>, ds)"
  using assms by (simp add: fetch_resources_def select_disaster_def error_response_def)

lemma fetch_resources_failed:
  assumes "\<not> disasters_unavailable ds" and "disasters ds d = Some disaster"
    and "resources_query rt ds d lat lng radius type = Failed err"
  shows "fetch_resources rt e key d lat lng radius type ds =
           (\<lparr>status = 500, body = Obj [(''error'', Str ''Failed to fetch resources'')]\<rparr>, ds)"
  using assms by (simp add: fetch_resources_def select_disaster_def error_response_def)

lemma fetch_resources_thrown:
  assumes "\<not> disasters_unavailable ds" and "disasters ds d = Some disaster"
    and "resources_query rt ds d lat lng radius type = Thrown"
  shows "fetch_resources rt e key d lat lng radius type ds =
           (\<lparr>status = 500, body = Obj [(''error'', Str ''Internal server error'')]\<rparr>, ds)"
  using assms by (simp add: fetch_resources_def select_disaster_def error_response_def)

lemma fetch_resources_empty:
  assumes "\<not> disasters_unavailable ds" and "disasters ds d = Some disaster"
    and "resources_query rt ds d lat lng radius type = Rows []"
  shows "fetch_resources rt e key d lat lng radius type ds =
           (\<lparr>status = 200,
             body = resources_response rt e d disaster lat lng radius
                      (generateMockResources rt e d lat lng)\<rparr>,
            ds\<lparr>cache := setCachedData (time_ms e) key
                  (resources_response rt e d disaster lat lng radius
                     (generateMockResources rt e d lat lng)) (Num 1800) (cache ds)\<rparr>)"
  using assms by (simp add: fetch_resources_def select_disaster_def Let_def)

lemma fetch_resources_rows:
  assumes "\<not> disasters_unavailable ds" and "disasters ds d = Some disaster"
    and "resources_query rt ds d lat lng radius type = Rows rows" and "rows \<noteq> []"
  shows "fetch_resources rt e key d lat lng radius type ds =
           (\<lparr>status = 200, body = resources_response rt e d disaster lat lng radius rows\<rparr>,
            ds\<lparr>cache := setCachedData (time_ms e) key
                  (resources_response rt e d disaster lat lng radius rows) (Num 1800) (cache ds)\<rparr>)"
  using assms by (simp add: fetch_resources_def select_disaster_def Let_def)

lemma resources_response_fields:
  "field (resources_response rt e d disaster lat lng radius rows) ''resources'' = Arr rows"
  "field (resources_response rt e d disaster lat lng radius rows) ''search_center'' =
     (if truthy lat \<and> truthy lng
      then Obj [(''lat'', Number (parseFloat rt (to_string rt lat))),
                (''lng'', Number (parseFloat rt (to_string rt lng)))]
      else Null)"
  by (simp_all add: resources_response_def)

lemma resources_query_Rows:
  assumes "resources_query rt ds d lat lng radius type = Rows rows"
  shows "\<not> (truthy lat \<and> truthy lng)"
  using assms by (auto simp add: resources_query_def split: if_splits)

lemma nth_mock_default:
  assumes lt: "i < 5" and no: "\<not> (truthy lat \<and> truthy lng)"
  shows "field (generateMockResources rt e d lat lng ! i) ''id'' = Str (uuidv4 e i) \<and>
         field (generateMockResources rt e d lat lng ! i) ''disaster_id'' = Str d \<and>
         field (generateMockResources rt e d lat lng ! i) ''latitude'' =
           Number (Num (40.7128 + (math_random e (2 * i) - 0.5) * 0.1)) \<and>
         field (generateMockResources rt e d lat lng ! i) ''longitude'' =
           Number (Num (- 74.0060 + (math_random e (2 * i + 1) - 0.5) * 0.1)) \<and>
         map_of (own_properties (generateMockResources rt e d lat lng ! i)) ''distance_km'' =
           Some Null"
proof -
  obtain n t c ci where shape:
    "baseResources ! i = Obj [(''name'', n), (''type'', t), (''capacity'', c), (''contact_info'', ci)]"
    using base_shape [OF lt] by blast
  show ?thesis
    by (simp only: nth_generateMockResources [OF lt] mock_resource_fields [OF shape]
          mock_resource_default [OF shape no] simp_thms)
qed

lemma mock_types:
  "map (\<lambda>r. field r ''type'') (generateMockResources rt e d lat lng) =
     [Str ''shelter'', Str ''medical'', Str ''food'', Str ''supplies'', Str ''housing'']"
  by (simp add: generateMockResources_unfold upt_rec mock_resource_def baseResources_def Let_def
        split_beta)

text \<open>
  Claim C1: the code at the input where it departs from the claim, and where it
  agrees. Take a request that misses the cache, for a disaster that exists. With
  both \<open>lat\<close> and \<open>lng\<close> supplied the handler throws at \<^verbatim>\<open>query.rpc\<close> and answers 500
  with the message ``Internal server error'': no resource is synthesized around the
  centre. When the query answers with zero rows, which it does only without a
  centre, the response has status 200 and exactly 5 resources, of the types shelter,
  medical, food, supplies and housing in this order; the resource at position \<open>i\<close>
  carries the identifier generated by call \<open>i\<close> of the generator and the requested
  disaster identifier, and its latitude and longitude are finite numbers within
  0.05 of the default 40.7128, -74.0060, each draw of the random generator lying in
  the interval from 0 to 1. The table of resources is left as it was.
\<close>

theorem synthesized_only_without_center:
  fixes rt :: js_runtime and e :: env and disasterId :: string
    and query :: jsval and ds :: datastore
  defines "lat \<equiv> field query ''lat''"
    and "lng \<equiv> field query ''lng''"
    and "radius \<equiv> with_default (Number (Num 10000)) (field query ''radius'')"
    and "type \<equiv> field query ''type''"
  defines "probe \<equiv> getCachedData (time_ms e) (cache_key rt disasterId lat lng radius type) (cache ds)"
  defines "out \<equiv> get_resources rt e disasterId query ds"
  assumes miss: "fst probe = None"
    and found: "\<not> disasters_unavailable ds \<and> disasters ds disasterId = Some disaster"
    and rnd: "\<forall>k. 0 \<le> math_random e k \<and> math_random e k < 1"
  shows "(truthy lat \<and> truthy lng \<longrightarrow>
            out = (\<lparr>status = 500, body = Obj [(''error'', Str ''Internal server error'')]\<rparr>,
                   ds\<lparr>cache := snd probe\<rparr>)) \<and>
         (resources_query rt ds disasterId lat lng radius type = Rows [] \<longrightarrow>
            \<not> (truthy lat \<and> truthy lng) \<and>
            status (fst out) = 200 \<and>
            (\<exists>items. field (body (fst out)) ''resources'' = Arr items \<and>
               length items = 5 \<and>
               map (\<lambda>r. field r ''type'') items =
                 [Str ''shelter'', Str ''medical'', Str ''food'', Str ''supplies'', Str ''housing''] \<and>
               (\<forall>i<5. field (items ! i) ''id'' = Str (uuidv4 e i) \<and>
                       field (items ! i) ''disaster_id'' = Str disasterId \<and>
                       (\<exists>x y. field (items ! i) ''latitude'' = Number (Num x) \<and>
                              field (items ! i) ''longitude'' = Number (Num y) \<and>
                              \<bar>x - 40.7128\<bar> \<le> 0.05 \<and> \<bar>y - (- 74.0060)\<bar> \<le> 0.05))) \<and>
            resources (snd out) = resources ds)"
proof (intro conjI impI)
  let ?key = "cache_key rt disasterId lat lng radius type"
  let ?ds' = "ds\<lparr>cache := snd probe\<rparr>"
  let ?items = "generateMockResources rt e disasterId lat lng"
  have step: "out = fetch_resources rt e ?key disasterId lat lng radius type ?ds'"
    unfolding out_def probe_def lat_def lng_def radius_def type_def
    by (rule get_resources_miss)
       (use miss in \<open>simp add: probe_def lat_def lng_def radius_def type_def\<close>)
  {
    assume "truthy lat \<and> truthy lng"
    then have "resources_query rt ?ds' disasterId lat lng radius type = Thrown"
      by (simp add: resources_query_def)
    with found show "out = (\<lparr>status = 500, body = Obj [(''error'', Str ''Internal server error'')]\<rparr>,
                            ?ds')"
      unfolding step by (intro fetch_resources_thrown [where disaster = disaster]) simp_all
  }
  assume zero: "resources_query rt ds disasterId lat lng radius type = Rows []"
  from resources_query_Rows [OF zero] show no: "\<not> (truthy lat \<and> truthy lng)" .
  have out: "out = (\<lparr>status = 200,
                     body = resources_response rt e disasterId disaster lat lng radius ?items\<rparr>,
                    ?ds'\<lparr>cache := setCachedData (time_ms e) ?key
                       (resources_response rt e disasterId disaster lat lng radius ?items) (Num 1800)
                       (cache ?ds')\<rparr>)"
    unfolding step
    by (rule fetch_resources_empty [where disaster = disaster])
       (use found zero in \<open>simp_all add: resources_query_cache\<close>)
  show "status (fst out) = 200" by (simp add: out)
  show "resources (snd out) = resources ds" by (simp add: out)
  have each: "field (?items ! i) ''id'' = Str (uuidv4 e i) \<and>
              field (?items ! i) ''disaster_id'' = Str disasterId \<and>
              (\<exists>x y. field (?items ! i) ''latitude'' = Number (Num x) \<and>
                     field (?items ! i) ''longitude'' = Number (Num y) \<and>
                     \<bar>x - 40.7128\<bar> \<le> 0.05 \<and> \<bar>y - (- 74.0060)\<bar> \<le> 0.05)" if lt: "i < 5" for i
  proof -
    have r1: "0 \<le> math_random e (2 * i) \<and> math_random e (2 * i) < 1"
      and r2: "0 \<le> math_random e (2 * i + 1) \<and> math_random e (2 * i + 1) < 1"
      using rnd by blast+
    from nth_mock_default [OF lt no, of rt e disasterId]
      jitter_bound [of "math_random e (2 * i)" "40.7128"]
      jitter_bound [of "math_random e (2 * i + 1)" "- 74.0060"] r1 r2
    show ?thesis by blast
  qed
  show "\<exists>items. field (body (fst out)) ''resources'' = Arr items \<and>
               length items = 5 \<and>
               map (\<lambda>r. field r ''type'') items =
                 [Str ''shelter'', Str ''medical'', Str ''food'', Str ''supplies'', Str ''housing''] \<and>
               (\<forall>i<5. field (items ! i) ''id'' = Str (uuidv4 e i) \<and>
                       field (items ! i) ''disaster_id'' = Str disasterId \<and>
                       (\<exists>x y. field (items ! i) ''latitude'' = Number (Num x) \<and>
                              field (items ! i) ''longitude'' = Number (Num y) \<and>
                              \<bar>x - 40.7128\<bar> \<le> 0.05 \<and> \<bar>y - (- 74.0060)\<bar> \<le> 0.05))"
    using mock_types [of rt e disasterId lat lng] each
    by (intro exI [of _ ?items])
       (simp add: out resources_response_fields length_generateMockResources)
qed

text \<open>
  On the store \<open>ds0\<close>, where \<open>d1\<close> has no resources: the request
  \<^verbatim>\<open>GET /resources/d1?lat=40.7128&lng=-74.0060\<close> is answered with 500, and the request
  \<^verbatim>\<open>GET /resources/d1\<close> with five resources around the default.
\<close>

theorem synthesized_only_without_center_witness:
  "get_resources rt0 env0 ''d1'' q_center ds0 =
     (\<lparr>status = 500, body = Obj [(''error'', Str ''Internal server error'')]\<rparr>, ds0) \<and>
   status (fst (get_resources rt0 env0 ''d1'' (Obj []) ds0)) = 200 \<and>
   (\<exists>items. field (body (fst (get_resources rt0 env0 ''d1'' (Obj []) ds0))) ''resources'' = Arr items \<and>
      length items = 5 \<and>
      map (\<lambda>r. field r ''type'') items =
        [Str ''shelter'', Str ''medical'', Str ''food'', Str ''supplies'', Str ''housing''] \<and>
      (\<forall>i<5. field (items ! i) ''id'' = Str (uuidv4 env0 i) \<and>
              field (items ! i) ''disaster_id'' = Str ''d1'' \<and>
              (\<exists>x y. field (items ! i) ''latitude'' = Number (Num x) \<and>
                     field (items ! i) ''longitude'' = Number (Num y) \<and>
                     \<bar>x - 40.7128\<bar> \<le> 0.05 \<and> \<bar>y - (- 74.0060)\<bar> \<le> 0.05))) \<and>
   resources (snd (get_resources rt0 env0 ''d1'' (Obj []) ds0)) = resources ds0"
proof -
  have f: "\<not> disasters_unavailable ds0 \<and>
           disasters ds0 ''d1'' = Some (Obj [(''id'', Str ''d1''), (''title'', Str ''Flood'')])"
    by (simp add: ds0_def)
  have m1: "fst (getCachedData (time_ms env0)
              (cache_key rt0 ''d1'' (field q_center ''lat'') (field q_center ''lng'')
                 (with_default (Number (Num 10000)) (field q_center ''radius''))
                 (field q_center ''type'')) (cache ds0)) = None"
    by (simp add: ds0_def getCachedData_def select_single_def)
  have m2: "fst (getCachedData (time_ms env0)
              (cache_key rt0 ''d1'' (field (Obj []) ''lat'') (field (Obj []) ''lng'')
                 (with_default (Number (Num 10000)) (field (Obj []) ''radius''))
                 (field (Obj []) ''type'')) (cache ds0)) = None"
    by (simp add: ds0_def getCachedData_def select_single_def)
  have z: "resources_query rt0 ds0 ''d1'' (field (Obj []) ''lat'') (field (Obj []) ''lng'')
             (with_default (Number (Num 10000)) (field (Obj []) ''radius''))
             (field (Obj []) ''type'') = Rows []"
    by (simp add: resources_query_def select_resources_def ds0_def)
  have c: "truthy (field q_center ''lat'') \<and> truthy (field q_center ''lng'')"
    by (simp add: q_center_def)
  have s: "ds0\<lparr>cache := snd (getCachedData (time_ms env0)
              (cache_key rt0 ''d1'' (field q_center ''lat'') (field q_center ''lng'')
                 (with_default (Number (Num 10000)) (field q_center ''radius''))
                 (field q_center ''type'')) (cache ds0))\<rparr> = ds0"
    by (simp add: ds0_def getCachedData_def select_single_def)
  from synthesized_only_without_center [OF m1 f rnd0, THEN conjunct1, rule_format, OF c]
    synthesized_only_without_center [OF m2 f rnd0, THEN conjunct2, rule_format, OF z]
  show ?thesis by (simp only: s)
qed

text \<open>
  Claim C5, as amended. The handler probes the cache first. When the probe finds
  nothing, a disaster identifier that is not in the table is answered with 404 and
  the message ``Disaster not found'', a failed lookup of the disaster with 500, and
  a query for the resources that fails or throws with 500; the body of each answer
  is the error message alone, and nothing is written to the cache or the tables.
  When the probe finds a live entry, that entry is the answer, with status 200, and
  the tables are not consulted.
\<close>

theorem not_found_and_failures:
  fixes rt :: js_runtime and e :: env and disasterId :: string
    and query :: jsval and ds :: datastore
  defines "lat \<equiv> field query ''lat''"
    and "lng \<equiv> field query ''lng''"
    and "radius \<equiv> with_default (Number (Num 10000)) (field query ''radius'')"
    and "type \<equiv> field query ''type''"
  defines "probe \<equiv> getCachedData (time_ms e) (cache_key rt disasterId lat lng radius type) (cache ds)"
  defines "out \<equiv> get_resources rt e disasterId query ds"
  shows "(fst probe = None \<longrightarrow>
            (\<not> disasters_unavailable ds \<and> disasters ds disasterId = None \<longrightarrow>
               out = (\<lparr>status = 404, body = Obj [(''error'', Str ''Disaster not found'')]\<rparr>,
                      ds\<lparr>cache := snd probe\<rparr>)) \<and>
            (disasters_unavailable ds \<longrightarrow>
               out = (\<lparr>status = 500, body = Obj [(''error'', Str ''Failed to fetch disaster'')]\<rparr>,
                      ds\<lparr>cache := snd probe\<rparr>)) \<and>
            (\<forall>disaster err.
               \<not> disasters_unavailable ds \<and> disasters ds disasterId = Some disaster \<and>
               resources_query rt ds disasterId lat lng radius type = Failed err \<longrightarrow>
               out = (\<lparr>status = 500, body = Obj [(''error'', Str ''Failed to fetch resources'')]\<rparr>,
                      ds\<lparr>cache := snd probe\<rparr>)) \<and>
            (\<forall>disaster.
               \<not> disasters_unavailable ds \<and> disasters ds disasterId = Some disaster \<and>
               resources_query rt ds disasterId lat lng radius type = Thrown \<longrightarrow>
               out = (\<lparr>status = 500, body = Obj [(''error'', Str ''Internal server error'')]\<rparr>,
                      ds\<lparr>cache := snd probe\<rparr>))) \<and>
         (\<forall>v. fst probe = Some v \<and> truthy v \<longrightarrow>
            out = (\<lparr>status = 200, body = v\<rparr>, ds\<lparr>cache := snd probe\<rparr>))"
proof (intro conjI impI allI)
  fix v
  assume "fst probe = Some v \<and> truthy v"
  then show "out = (\<lparr>status = 200, body = v\<rparr>, ds\<lparr>cache := snd probe\<rparr>)"
    unfolding out_def probe_def lat_def lng_def radius_def type_def
    by (intro get_resources_hit) simp_all
next
  let ?key = "cache_key rt disasterId lat lng radius type"
  let ?ds' = "ds\<lparr>cache := snd probe\<rparr>"
  assume miss: "fst probe = None"
  have step: "out = fetch_resources rt e ?key disasterId lat lng radius type ?ds'"
    unfolding out_def probe_def lat_def lng_def radius_def type_def
    by (rule get_resources_miss)
       (use miss in \<open>simp add: probe_def lat_def lng_def radius_def type_def\<close>)
  {
    assume "\<not> disasters_unavailable ds \<and> disasters ds disasterId = None"
    then show "out = (\<lparr>status = 404, body = Obj [(''error'', Str ''Disaster not found'')]\<rparr>, ?ds')"
      unfolding step by (simp add: fetch_resources_not_found)
  }
  {
    assume "disasters_unavailable ds"
    then show "out = (\<lparr>status = 500, body = Obj [(''error'', Str ''Failed to fetch disaster'')]\<rparr>,
                      ?ds')"
      unfolding step by (simp add: fetch_resources_lookup_failed)
  }
  {
    fix disaster err
    assume "\<not> disasters_unavailable ds \<and> disasters ds disasterId = Some disaster \<and>
            resources_query rt ds disasterId lat lng radius type = Failed err"
    then show "out = (\<lparr>status = 500, body = Obj [(''error'', Str ''Failed to fetch resources'')]\<rparr>,
                      ?ds')"
      unfolding step
      by (intro fetch_resources_failed [where disaster = disaster and err = err])
         (simp_all add: resources_query_cache)
  }
  {
    fix disaster
    assume "\<not> disasters_unavailable ds \<and> disasters ds disasterId = Some disaster \<and>
            resources_query rt ds disasterId lat lng radius type = Thrown"
    then show "out = (\<lparr>status = 500, body = Obj [(''error'', Str ''Internal server error'')]\<rparr>,
                      ?ds')"
      unfolding step
      by (intro fetch_resources_thrown [where disaster = disaster])
         (simp_all add: resources_query_cache)
  }
qed

text \<open>
  On \<open>ds0\<close>, with an empty cache: the unknown disaster \<open>d2\<close> is answered with 404,
  and \<open>d1\<close> with 500 when the table of resources is unavailable.
\<close>

theorem not_found_and_failures_witness:
  "get_resources rt0 env0 ''d2'' (Obj []) ds0 =
     (\<lparr>status = 404, body = Obj [(''error'', Str ''Disaster not found'')]\<rparr>, ds0) \<and>
   get_resources rt0 env0 ''d1'' (Obj []) (ds0\<lparr>resources_unavailable := True\<rparr>) =
     (\<lparr>status = 500, body = Obj [(''error'', Str ''Failed to fetch resources'')]\<rparr>,
      ds0\<lparr>resources_unavailable := True\<rparr>)"
  using not_found_and_failures
          [where rt = rt0 and e = env0 and disasterId = "''d2''" and query = "Obj []"
             and ds = ds0]
        not_found_and_failures
          [where rt = rt0 and e = env0 and disasterId = "''d1''" and query = "Obj []"
             and ds = "ds0\<lparr>resources_unavailable := True\<rparr>"]
  by (simp add: sample_defs cache_key_def with_default_def getCachedData_def select_single_def
        resources_query_def select_resources_def)

text \<open>
  Claim C5 as stated fails for a request that the cache can answer. The first
  request for \<open>d1\<close> stores its response in the cache for 1800 seconds; then the
  disaster is deleted; the same request one second later is answered with status
  200 and five resources, for a disaster that does not exist.
\<close>

theorem stale_cache_counterexample:
  "disasters ((snd (get_resources rt0 env0 ''d1'' (Obj []) ds0))\<lparr>disasters := Map.empty\<rparr>) ''d1''
     = None \<and>
   status (fst (get_resources rt0 (env0\<lparr>time_ms := 2000\<rparr>) ''d1'' (Obj [])
             ((snd (get_resources rt0 env0 ''d1'' (Obj []) ds0))\<lparr>disasters := Map.empty\<rparr>)))
     = 200 \<and>
   length (elements (field (body (fst (get_resources rt0 (env0\<lparr>time_ms := 2000\<rparr>) ''d1'' (Obj [])
             ((snd (get_resources rt0 env0 ''d1'' (Obj []) ds0))\<lparr>disasters := Map.empty\<rparr>))))
           ''resources'')) = 5"
  by (simp add: sample_defs handler_defs upt_rec Let_def)

text \<open>
  Claim C6, as amended. Take a request that misses the cache, for a disaster that
  exists, in which \<open>lat\<close> or \<open>lng\<close> is absent. No filter on distance is applied: the
  query is the plain select, and it returns every stored resource of the disaster
  (and of the requested type, when one is given). When there are such resources,
  the response holds them as they are stored: the handler adds no distance. When
  there is none, each of the 5 synthesized resources has the property
  \<^verbatim>\<open>distance_km\<close> with the value \<^verbatim>\<open>null\<close>: the field is present, not left out.
\<close>

theorem no_center_no_filter_null_distance:
  fixes rt :: js_runtime and e :: env and disasterId :: string
    and query :: jsval and ds :: datastore
  defines "lat \<equiv> field query ''lat''"
    and "lng \<equiv> field query ''lng''"
    and "radius \<equiv> with_default (Number (Num 10000)) (field query ''radius'')"
    and "type \<equiv> field query ''type''"
  defines "out \<equiv> get_resources rt e disasterId query ds"
  assumes miss: "fst (getCachedData (time_ms e)
                        (cache_key rt disasterId lat lng radius type) (cache ds)) = None"
    and found: "\<not> disasters_unavailable ds \<and> disasters ds disasterId = Some disaster"
    and no: "\<not> (truthy lat \<and> truthy lng)"
  shows "resources_query rt ds disasterId lat lng radius type =
           select_resources rt ds disasterId type \<and>
         (\<forall>rows. select_resources rt ds disasterId type = Rows rows \<longrightarrow>
            rows = filter (\<lambda>row. field row ''disaster_id'' = Str disasterId \<and>
                                 (if truthy type then field row ''type'' = Str (to_string rt type)
                                  else True))
                          (resources ds) \<and>
            status (fst out) = 200 \<and>
            (rows \<noteq> [] \<longrightarrow> field (body (fst out)) ''resources'' = Arr rows) \<and>
            (rows = [] \<longrightarrow>
               (\<exists>items. field (body (fst out)) ''resources'' = Arr items \<and> length items = 5 \<and>
                  (\<forall>i<5. map_of (own_properties (items ! i)) ''distance_km'' = Some Null))))"
proof (intro conjI allI impI)
  let ?key = "cache_key rt disasterId lat lng radius type"
  let ?ds' = "ds\<lparr>cache := snd (getCachedData (time_ms e) ?key (cache ds))\<rparr>"
  let ?items = "generateMockResources rt e disasterId lat lng"
  show q: "resources_query rt ds disasterId lat lng radius type =
             select_resources rt ds disasterId type"
    using no by (auto simp add: resources_query_def)
  have step: "out = fetch_resources rt e ?key disasterId lat lng radius type ?ds'"
    unfolding out_def lat_def lng_def radius_def type_def
    by (rule get_resources_miss) (use miss in \<open>simp add: lat_def lng_def radius_def type_def\<close>)
  fix rows
  assume sel: "select_resources rt ds disasterId type = Rows rows"
  then show "rows = filter (\<lambda>row. field row ''disaster_id'' = Str disasterId \<and>
                                 (if truthy type then field row ''type'' = Str (to_string rt type)
                                  else True))
                          (resources ds)"
    unfolding select_resources_def
    by (cases "resources_unavailable ds")
       (auto simp only: if_True if_False query_outcome.inject query_outcome.distinct)
  from sel q have r: "resources_query rt ds disasterId lat lng radius type = Rows rows"
    by simp
  have body: "status (fst out) = 200 \<and>
              body (fst out) = resources_response rt e disasterId disaster lat lng radius
                (if rows = [] then ?items else rows)"
    unfolding step using found r
    by (cases "rows = []")
       (simp_all add: fetch_resources_rows [where disaster = disaster]
          fetch_resources_empty [where disaster = disaster] resources_query_cache)
  from body show "status (fst out) = 200" by simp
  {
    assume "rows \<noteq> []"
    with body show "field (body (fst out)) ''resources'' = Arr rows"
      by (simp add: resources_response_fields)
  }
  {
    assume "rows = []"
    with body have "field (body (fst out)) ''resources'' = Arr ?items"
      by (simp add: resources_response_fields)
    then show "\<exists>items. field (body (fst out)) ''resources'' = Arr items \<and> length items = 5 \<and>
                  (\<forall>i<5. map_of (own_properties (items ! i)) ''distance_km'' = Some Null)"
      using length_generateMockResources [of rt e disasterId lat lng]
        nth_mock_default [OF _ no, of _ rt e disasterId]
      by (intro exI [of _ ?items]) simp
  }
qed

text \<open>
  Without a centre, the stored resource \<open>row1\<close> of \<open>ds1\<close> is returned as it is, and
  on \<open>ds0\<close> the five synthesized resources have the distance \<^verbatim>\<open>null\<close>.
\<close>

theorem no_center_no_filter_null_distance_witness:
  "field (body (fst (get_resources rt0 env0 ''d1'' (Obj []) ds1))) ''resources'' = Arr [row1] \<and>
   (\<exists>items. field (body (fst (get_resources rt0 env0 ''d1'' (Obj []) ds0))) ''resources'' = Arr items \<and>
      length items = 5 \<and>
      (\<forall>i<5. map_of (own_properties (items ! i)) ''distance_km'' = Some Null))"
proof -
  have m0: "fst (getCachedData (time_ms env0)
              (cache_key rt0 ''d1'' (field (Obj []) ''lat'') (field (Obj []) ''lng'')
                 (with_default (Number (Num 10000)) (field (Obj []) ''radius''))
                 (field (Obj []) ''type'')) (cache ds0)) = None"
    by (simp add: ds0_def getCachedData_def select_single_def)
  have m1: "fst (getCachedData (time_ms env0)
              (cache_key rt0 ''d1'' (field (Obj []) ''lat'') (field (Obj []) ''lng'')
                 (with_default (Number (Num 10000)) (field (Obj []) ''radius''))
                 (field (Obj []) ''type'')) (cache ds1)) = None"
    by (simp add: ds1_def ds0_def getCachedData_def select_single_def)
  have f0: "\<not> disasters_unavailable ds0 \<and>
            disasters ds0 ''d1'' = Some (Obj [(''id'', Str ''d1''), (''title'', Str ''Flood'')])"
    by (simp add: ds0_def)
  have f1: "\<not> disasters_unavailable ds1 \<and>
            disasters ds1 ''d1'' = Some (Obj [(''id'', Str ''d1''), (''title'', Str ''Flood'')])"
    by (simp add: ds1_def ds0_def)
  have n: "\<not> (truthy (field (Obj []) ''lat'') \<and> truthy (field (Obj []) ''lng''))"
    by simp
  have s0: "select_resources rt0 ds0 ''d1'' (field (Obj []) ''type'') = Rows []"
    by (simp add: select_resources_def ds0_def)
  have s1: "select_resources rt0 ds1 ''d1'' (field (Obj []) ''type'') = Rows [row1]"
    by (simp add: select_resources_def ds1_def ds0_def row1_def)
  from no_center_no_filter_null_distance [OF m1 f1 n, THEN conjunct2, rule_format, OF s1]
    no_center_no_filter_null_distance [OF m0 f0 n, THEN conjunct2, rule_format, OF s0]
  show ?thesis by simp
qed

text \<open>
  Claim C6 as stated fails for the synthesized resources. The request
  \<^verbatim>\<open>GET /resources/d1\<close> has neither \<open>lat\<close> nor \<open>lng\<close>, and each of the five resources
  of the response has the property \<^verbatim>\<open>distance_km\<close>, with the value \<^verbatim>\<open>null\<close>: the field
  is not left out of the response.
\<close>

theorem distance_null_not_omitted_counterexample:
  "field (Obj []) ''lat'' = Undefined \<and> field (Obj []) ''lng'' = Undefined \<and>
   status (fst (get_resources rt0 env0 ''d1'' (Obj []) ds0)) = 200 \<and>
   map (\<lambda>r. map_of (own_properties r) ''distance_km'')
     (elements (field (body (fst (get_resources rt0 env0 ''d1'' (Obj []) ds0))) ''resources'')) =
     [Some Null, Some Null, Some Null, Some Null, Some Null]"
  by (simp add: sample_defs handler_defs upt_rec Let_def)

section \<open>Properties of POST /resources\<close>

lemma post_resource_valid:
  assumes "truthy (field reqbody ''disaster_id'') \<and> truthy (field reqbody ''name'') \<and>
           truthy (field reqbody ''type'')"
  shows "post_resource rt be e reqbody ds =
           (case insert_resource be (build_resource rt e reqbody) ds of
              (Inl err, ds') \<Rightarrow>
                (\<lparr>status = 500, body = Obj [(''error'', Str ''Failed to create resource'')]\<rparr>, ds',
                 [DbInsert (build_resource rt e reqbody) (Inl err)])
            | (Inr data, ds') \<Rightarrow>
                (\<lparr>status = 201, body = Obj [(''resource'', data)]\<rparr>, ds',
                 [DbInsert (build_resource rt e reqbody) (Inr data),
                  Emit (''disaster_'' @ to_string rt (field reqbody ''disaster_id''))
                    ''resources_updated'' data]))"
  using assms
  by (simp add: post_resource_def Let_def error_response_def split: prod.splits sum.splits)

lemma insert_resource_Inr:
  assumes "fst (insert_resource be resource ds) = Inr data"
  shows "insert_resource be resource ds = (Inr data, ds\<lparr>resources := resources ds @ [data]\<rparr>)"
  using assms by (simp add: insert_resource_def split: if_splits sum.splits)

lemma insert_resource_Inl:
  assumes "fst (insert_resource be resource ds) = Inl err"
  shows "insert_resource be resource ds = (Inl err, ds)"
  using assms by (simp add: insert_resource_def split: if_splits sum.splits)

lemma build_resource_no_location:
  assumes "\<not> (truthy (field reqbody ''lat'') \<and> truthy (field reqbody ''lng''))"
  shows "map_of (own_properties (build_resource rt e reqbody)) ''location'' = None"
  using assms by (auto simp add: build_resource_def Let_def)

lemma post_resource_sends:
  assumes "truthy (field reqbody ''disaster_id'') \<and> truthy (field reqbody ''name'') \<and>
           truthy (field reqbody ''type'')"
  shows "\<exists>answer rest. snd (snd (post_resource rt be e reqbody ds)) =
           DbInsert (build_resource rt e reqbody) answer # rest"
  by (simp add: post_resource_valid [OF assms] split: prod.splits sum.splits)

text \<open>
  Claim C7. Take a request whose three required fields are present. When the
  insert answers with the stored row, the handler replies 201 with that row, the
  row is in the table, and the effects of the request are, in this order, the
  insert and one event \<^verbatim>\<open>resources_updated\<close> sent to the room of the disaster of the
  request, with the stored row as payload. When the insert answers with an error,
  the handler replies 500, the table is unchanged, and the insert that failed is
  the only effect: no event is sent.
\<close>

theorem created_resource_broadcast_once:
  fixes rt :: js_runtime and be :: backend and e :: env and reqbody :: jsval and ds :: datastore
  defines "resource \<equiv> build_resource rt e reqbody"
    and "out \<equiv> post_resource rt be e reqbody ds"
  assumes valid: "truthy (field reqbody ''disaster_id'') \<and> truthy (field reqbody ''name'') \<and>
                  truthy (field reqbody ''type'')"
  shows "(\<forall>data. fst (insert_resource be resource ds) = Inr data \<longrightarrow>
            out = (\<lparr>status = 201, body = Obj [(''resource'', data)]\<rparr>,
                   ds\<lparr>resources := resources ds @ [data]\<rparr>,
                   [DbInsert resource (Inr data),
                    Emit (''disaster_'' @ to_string rt (field reqbody ''disaster_id''))
                      ''resources_updated'' data])) \<and>
         (\<forall>err. fst (insert_resource be resource ds) = Inl err \<longrightarrow>
            out = (\<lparr>status = 500, body = Obj [(''error'', Str ''Failed to create resource'')]\<rparr>,
                   ds, [DbInsert resource (Inl err)]))"
  unfolding out_def resource_def
  by (auto simp add: post_resource_valid [OF valid] dest!: insert_resource_Inr insert_resource_Inl)

text \<open>
  The body \<open>body_ok\<close> on \<open>ds0\<close>: one insert, then one event to the room
  \<^verbatim>\<open>disaster_d1\<close>. The same body when the table is unavailable: the failed insert
  alone.
\<close>

theorem created_resource_broadcast_once_witness:
  "post_resource rt0 be0 env0 body_ok ds0 =
     (\<lparr>status = 201, body = Obj [(''resource'', build_resource rt0 env0 body_ok)]\<rparr>,
      ds0\<lparr>resources := resources ds0 @ [build_resource rt0 env0 body_ok]\<rparr>,
      [DbInsert (build_resource rt0 env0 body_ok) (Inr (build_resource rt0 env0 body_ok)),
       Emit ''disaster_d1'' ''resources_updated'' (build_resource rt0 env0 body_ok)]) \<and>
   post_resource rt0 be0 env0 body_ok (ds0\<lparr>resources_unavailable := True\<rparr>) =
     (\<lparr>status = 500, body = Obj [(''error'', Str ''Failed to create resource'')]\<rparr>,
      ds0\<lparr>resources_unavailable := True\<rparr>,
      [DbInsert (build_resource rt0 env0 body_ok) (Inl PgOther)])"
proof -
  have v: "truthy (field body_ok ''disaster_id'') \<and> truthy (field body_ok ''name'') \<and>
           truthy (field body_ok ''type'')"
    by (simp add: body_ok_def)
  have ok: "fst (insert_resource be0 (build_resource rt0 env0 body_ok) ds0) =
              Inr (build_resource rt0 env0 body_ok)"
    by (simp add: insert_resource_def be0_def ds0_def)
  have ko: "fst (insert_resource be0 (build_resource rt0 env0 body_ok)
                  (ds0\<lparr>resources_unavailable := True\<rparr>)) = Inl PgOther"
    by (simp add: insert_resource_def)
  have d: "to_string rt0 (field body_ok ''disaster_id'') = ''d1''"
    by (simp add: body_ok_def)
  show ?thesis
    using created_resource_broadcast_once
            [OF v, where be = be0 and rt = rt0 and e = env0 and ds = ds0] ok
          created_resource_broadcast_once
            [OF v, where be = be0 and rt = rt0 and e = env0
               and ds = "ds0\<lparr>resources_unavailable := True\<rparr>"] ko
    by (simp add: d)
qed

text \<open>
  Claim C9. When \<^verbatim>\<open>disaster_id\<close>, \<^verbatim>\<open>name\<close> or \<^verbatim>\<open>type\<close> is missing from the body (it
  then reads as \<^verbatim>\<open>undefined\<close>, which is not truthy; the same holds for any other
  value that is not truthy), the handler replies 400 at once: the datastore is
  returned unchanged and the request has no effect, so no insert is made.
\<close>

theorem missing_field_rejected:
  assumes "\<not> truthy (field reqbody ''disaster_id'') \<or> \<not> truthy (field reqbody ''name'') \<or>
           \<not> truthy (field reqbody ''type'')"
  shows "post_resource rt be e reqbody ds =
           (\<lparr>status = 400,
             body = Obj [(''error'', Str ''disaster_id, name, and type are required'')]\<rparr>,
            ds, [])"
  using assms by (auto simp add: post_resource_def Let_def error_response_def)

text \<open>The body \<open>body_noname\<close> has no name.\<close>

theorem missing_field_rejected_witness:
  "field body_noname ''name'' = Undefined \<and>
   post_resource rt0 be0 env0 body_noname ds0 =
     (\<lparr>status = 400,
       body = Obj [(''error'', Str ''disaster_id, name, and type are required'')]\<rparr>,
      ds0, [])"
proof -
  have m: "field body_noname ''name'' = Undefined"
    by (simp add: body_noname_def)
  then have "\<not> truthy (field body_noname ''disaster_id'') \<or>
             \<not> truthy (field body_noname ''name'') \<or>
             \<not> truthy (field body_noname ''type'')"
    by simp
  from missing_field_rejected [OF this, of rt0 be0 env0 ds0] m show ?thesis
    by simp
qed

section \<open>A coordinate equal to zero\<close>

text \<open>
  Claim C10, as amended. Whether a coordinate is there is decided by its
  truthiness: the number 0, the empty string and a missing value are not truthy,
  the string \<^verbatim>\<open>"0"\<close> is. In the JSON body of a POST a latitude or longitude that is
  the number 0 therefore counts as absent, and the object sent to the datastore has
  no \<^verbatim>\<open>location\<close>. The query parameters of a GET are strings, so \<^verbatim>\<open>lat=0\<close> and \<^verbatim>\<open>lng=0\<close>
  are coordinates that are there, and the query made for them is not the plain
  select. Only when \<open>lat\<close> or \<open>lng\<close> is not truthy (missing or empty) does a request
  that misses the cache, for a disaster that exists, go without a centre: the query
  is the plain select, the response reports \<^verbatim>\<open>search_center\<close> as \<^verbatim>\<open>null\<close>, and
  synthesized resources are placed around 40.7128, -74.0060 with the distance
  \<^verbatim>\<open>null\<close>.
\<close>

theorem coordinate_presence_is_truthiness:
  fixes rt :: js_runtime and be :: backend and e :: env and disasterId :: string
    and query :: jsval and ds :: datastore and reqbody :: jsval
  defines "lat \<equiv> field query ''lat''"
    and "lng \<equiv> field query ''lng''"
    and "radius \<equiv> with_default (Number (Num 10000)) (field query ''radius'')"
    and "type \<equiv> field query ''type''"
  defines "out \<equiv> get_resources rt e disasterId query ds"
  defines "q \<equiv> resources_query rt ds disasterId lat lng radius type"
  shows "(truthy (Str ''0'') \<and> \<not> truthy (Number (Num 0)) \<and> \<not> truthy (Str []) \<and>
          \<not> truthy Undefined) \<and>
         (truthy (field reqbody ''disaster_id'') \<and> truthy (field reqbody ''name'') \<and>
          truthy (field reqbody ''type'') \<and>
          (field reqbody ''lat'' = Number (Num 0) \<or> field reqbody ''lng'' = Number (Num 0)) \<longrightarrow>
            map_of (own_properties (build_resource rt e reqbody)) ''location'' = None \<and>
            (\<exists>answer rest. snd (snd (post_resource rt be e reqbody ds)) =
               DbInsert (build_resource rt e reqbody) answer # rest)) \<and>
         (truthy lat \<and> truthy lng \<longrightarrow> q \<noteq> select_resources rt ds disasterId type) \<and>
         (\<forall>disaster.
            \<not> (truthy lat \<and> truthy lng) \<and>
            fst (getCachedData (time_ms e)
                   (cache_key rt disasterId lat lng radius type) (cache ds)) = None \<and>
            \<not> disasters_unavailable ds \<and> disasters ds disasterId = Some disaster \<longrightarrow>
            q = select_resources rt ds disasterId type \<and>
            (\<forall>rows. q = Rows rows \<longrightarrow> field (body (fst out)) ''search_center'' = Null) \<and>
            (q = Rows [] \<longrightarrow>
               (\<exists>items. field (body (fst out)) ''resources'' = Arr items \<and> length items = 5 \<and>
                  (\<forall>i<5.
                     field (items ! i) ''latitude'' =
                       Number (Num (40.7128 + (math_random e (2 * i) - 0.5) * 0.1)) \<and>
                     field (items ! i) ''longitude'' =
                       Number (Num (- 74.0060 + (math_random e (2 * i + 1) - 0.5) * 0.1)) \<and>
                     map_of (own_properties (items ! i)) ''distance_km'' = Some Null))))"
proof (intro conjI allI impI)
  show "truthy (Str ''0'')" and "\<not> truthy (Number (Num 0))" and "\<not> truthy (Str [])"
    and "\<not> truthy Undefined"
    by simp_all
next
  assume a: "truthy (field reqbody ''disaster_id'') \<and> truthy (field reqbody ''name'') \<and>
          truthy (field reqbody ''type'') \<and>
          (field reqbody ''lat'' = Number (Num 0) \<or> field reqbody ''lng'' = Number (Num 0))"
  then have "\<not> (truthy (field reqbody ''lat'') \<and> truthy (field reqbody ''lng''))"
    by auto
  then show "map_of (own_properties (build_resource rt e reqbody)) ''location'' = None"
    by (rule build_resource_no_location)
  from a show "\<exists>answer rest. snd (snd (post_resource rt be e reqbody ds)) =
               DbInsert (build_resource rt e reqbody) answer # rest"
    by (intro post_resource_sends) simp
next
  assume "truthy lat \<and> truthy lng"
  then show "q \<noteq> select_resources rt ds disasterId type"
    by (simp add: q_def resources_query_def select_resources_def)
next
  fix disaster
  assume h: "\<not> (truthy lat \<and> truthy lng) \<and>
            fst (getCachedData (time_ms e)
                   (cache_key rt disasterId lat lng radius type) (cache ds)) = None \<and>
            \<not> disasters_unavailable ds \<and> disasters ds disasterId = Some disaster"
  then have no: "\<not> (truthy lat \<and> truthy lng)" by blast
  let ?key = "cache_key rt disasterId lat lng radius type"
  let ?ds' = "ds\<lparr>cache := snd (getCachedData (time_ms e) ?key (cache ds))\<rparr>"
  let ?items = "generateMockResources rt e disasterId lat lng"
  have step: "out = fetch_resources rt e ?key disasterId lat lng radius type ?ds'"
    using get_resources_miss [of e rt disasterId query ds] h
    by (simp add: out_def lat_def lng_def radius_def type_def)
  show "q = select_resources rt ds disasterId type"
    using no by (auto simp add: q_def resources_query_def)
  have body: "body (fst out) = resources_response rt e disasterId disaster lat lng radius
                (if rows = [] then ?items else rows)"
    if "q = Rows rows" for rows
    unfolding step using h that
    by (cases "rows = []")
       (simp_all add: q_def fetch_resources_rows [where disaster = disaster]
          fetch_resources_empty [where disaster = disaster] resources_query_cache)
  {
    fix rows
    assume "q = Rows rows"
    from body [OF this] no
    show "field (body (fst out)) ''search_center'' = Null"
      by (auto simp add: resources_response_fields)
  }
  {
    assume "q = Rows []"
    from body [OF this]
    have "field (body (fst out)) ''resources'' = Arr ?items"
      by (simp add: resources_response_fields)
    then show "\<exists>items. field (body (fst out)) ''resources'' = Arr items \<and> length items = 5 \<and>
                  (\<forall>i<5.
                     field (items ! i) ''latitude'' =
                       Number (Num (40.7128 + (math_random e (2 * i) - 0.5) * 0.1)) \<and>
                     field (items ! i) ''longitude'' =
                       Number (Num (- 74.0060 + (math_random e (2 * i + 1) - 0.5) * 0.1)) \<and>
                     map_of (own_properties (items ! i)) ''distance_km'' = Some Null)"
      using length_generateMockResources [of rt e disasterId lat lng]
        nth_mock_default [OF _ no, of _ rt e disasterId]
      by (intro exI [of _ ?items]) simp
  }
qed

text \<open>
  The body \<open>body_ok\<close>, with the number 0 as latitude, is sent to the datastore
  without a location. For \<^verbatim>\<open>GET /resources/d1?lat=&lng=\<close> the centre reported is
  \<^verbatim>\<open>null\<close>.
\<close>

theorem coordinate_presence_is_truthiness_witness:
  "map_of (own_properties (build_resource rt0 env0 body_ok)) ''location'' = None \<and>
   (\<exists>answer rest. snd (snd (post_resource rt0 be0 env0 body_ok ds0)) =
      DbInsert (build_resource rt0 env0 body_ok) answer # rest) \<and>
   field (body (fst (get_resources rt0 env0 ''d1'' q_empty ds0))) ''search_center'' = Null"
proof -
  note post = coordinate_presence_is_truthiness
    [where rt = rt0 and be = be0 and e = env0 and ds = ds0 and reqbody = body_ok,
     THEN conjunct2, THEN conjunct1, rule_format]
  note get1 = coordinate_presence_is_truthiness
    [where rt = rt0 and e = env0 and ds = ds0 and disasterId = "''d1''" and query = q_empty,
     THEN conjunct2, THEN conjunct2, THEN conjunct2, rule_format,
     of "Obj [(''id'', Str ''d1''), (''title'', Str ''Flood'')]", THEN conjunct2, THEN conjunct1,
     rule_format, of "[]"]
  have a: "map_of (own_properties (build_resource rt0 env0 body_ok)) ''location'' = None \<and>
   (\<exists>answer rest. snd (snd (post_resource rt0 be0 env0 body_ok ds0)) =
      DbInsert (build_resource rt0 env0 body_ok) answer # rest)"
    by (rule post) (simp add: body_ok_def)
  have c: "field (body (fst (get_resources rt0 env0 ''d1'' q_empty ds0))) ''search_center'' = Null"
    using get1
    by (simp add: sample_defs cache_key_def with_default_def getCachedData_def
          select_single_def resources_query_def select_resources_def)
  from a c show ?thesis by simp
qed

text \<open>
  Claim C10 as stated fails for the GET request. \<^verbatim>\<open>GET /resources/d1?lat=0&lng=0\<close>
  carries the strings \<^verbatim>\<open>"0"\<close>, which are truthy: the request is not handled like
  one without coordinates, which is answered with status 200 and the centre \<^verbatim>\<open>null\<close>,
  but takes the branch of line 53 and is answered with 500.
\<close>

theorem zero_string_is_truthy_counterexample:
  "field q_zero ''lat'' = Str ''0'' \<and> field q_zero ''lng'' = Str ''0'' \<and>
   truthy (field q_zero ''lat'') \<and> truthy (field q_zero ''lng'') \<and>
   get_resources rt0 env0 ''d1'' q_zero ds0 =
     (\<lparr>status = 500, body = Obj [(''error'', Str ''Internal server error'')]\<rparr>, ds0) \<and>
   status (fst (get_resources rt0 env0 ''d1'' (Obj []) ds0)) = 200 \<and>
   field (body (fst (get_resources rt0 env0 ''d1'' (Obj []) ds0))) ''search_center'' = Null"
  by (simp add: sample_defs handler_defs upt_rec Let_def)

end
